theory Spec2Isabelle
  imports Main "HOL-Library.Sublist" "HOL-Library.AList"
begin

section \<open>Kobold-Swap: discovery, config synthesis and process supervision\<close>

text \<open>
  A shallow embedding of \<^verbatim>\<open>kobold-swap.py\<close>. The program reads and changes the working
  directory, prints to standard output, runs two external programs and may stop by
  returning, by raising or by blocking on a child that never exits. All of that is made
  explicit: every function takes a \<open>world\<close> and returns the updated one, an exception is a
  value of type \<open>exn\<close>, and a run that never returns is \<open>None\<close>.
\<close>

subsection \<open>The working directory\<close>

text \<open>
  A directory is the list of its entries in the order the operating system enumerates
  them (the order \<^verbatim>\<open>Path.glob\<close> yields them in, which Python does not sort).
\<close>

datatype node = File string | Dir "(string \<times> node) list"

type_synonym directory = "(string \<times> node) list"

subsection \<open>Exceptions and exit statuses\<close>

text \<open>
  \<open>SystemExit\<close> carries the argument of \<^verbatim>\<open>sys.exit\<close> or \<^verbatim>\<open>quit\<close>. The interpreter turns it
  into the exit status: \<^verbatim>\<open>None\<close> is 0, an integer is itself, and any other object (a
  string, also the empty one) is printed to standard error and the status is 1.
  \<open>OSError msg\<close> stands for the exceptions derived from \<^verbatim>\<open>Exception\<close> that file and
  process operations raise, with \<open>msg\<close> what \<^verbatim>\<open>str\<close> gives for them; \<open>KeyboardInterrupt\<close> and
  \<open>SystemExit\<close> derive from \<^verbatim>\<open>BaseException\<close> only, so \<^verbatim>\<open>except Exception\<close> does not catch
  them. An exception that nothing catches ends the process with a traceback and status 1;
  for \<open>KeyboardInterrupt\<close> the process ends through the interrupt signal, which a shell
  shows as 130.
\<close>

datatype exit_arg = ArgNone | ArgInt int | ArgStr string

datatype exn = OSError string | KeyboardInterrupt | SystemExit exit_arg

fun is_Exception :: "exn \<Rightarrow> bool" where
  "is_Exception (OSError msg) = True"
| "is_Exception KeyboardInterrupt = False"
| "is_Exception (SystemExit a) = False"

datatype outcome = Returned | Raised exn

fun exit_status :: "outcome \<Rightarrow> int" where
  "exit_status Returned = 0"
| "exit_status (Raised (SystemExit ArgNone)) = 0"
| "exit_status (Raised (SystemExit (ArgInt n))) = n"
| "exit_status (Raised (SystemExit (ArgStr s))) = 1"
| "exit_status (Raised (OSError msg)) = 1"
| "exit_status (Raised KeyboardInterrupt) = 130"

subsection \<open>The environment\<close>

text \<open>
  What the program cannot decide is given by the world: whether creating a directory,
  writing the output file or spawning the proxy fails, what the one-time extraction run
  does, and what each blocking wait on the child ends with: the child exits, the wait is
  interrupted, or neither ever happens (also when the list of outcomes is used up). The
  trace of external actions records what the program has asked of its environment.
\<close>

datatype write_fault = NoFault | OpenFails string | DumpFails nat string

datatype run_outcome = RunRaises string | RunExits int "node option"

datatype wait_outcome = WaitExits int | WaitInterrupted | WaitForever

datatype child_state = NotStarted | Running | TermRequested | Exited int

datatype event =
    Mkdir string
  | RunProc "string list"
  | OpenWrite string
  | Spawn "string list"
  | Wait
  | Terminate

type_synonym entry = "(string \<times> string) list"

type_synonym models = "(string \<times> entry) list"

type_synonym config = "(string \<times> models) list"

record world =
  cwd :: directory
  other_paths :: "string list"
  stdout :: "string list"
  events :: "event list"
  child :: child_state
  platform_system :: string
  os_sep :: char
  basepath :: string
  yaml_dump :: "config \<Rightarrow> string"
  mkdir_fault :: "string option"
  unpack_outcome :: run_outcome
  write_fault :: write_fault
  spawn_fault :: "string option"
  wait_outcomes :: "wait_outcome list"

definition print :: "world \<Rightarrow> string \<Rightarrow> world" where
  "print w s = w\<lparr>stdout := stdout w @ [s]\<rparr>"

definition log_event :: "world \<Rightarrow> event \<Rightarrow> world" where
  "log_event w e = w\<lparr>events := events w @ [e]\<rparr>"

text \<open>
  A name exists when the working directory has an entry of that name, or when it is one of
  the paths outside the working directory that the world lists (the directory of the
  program itself is such a place). \<open>os_path_join\<close> is the rule of \<^verbatim>\<open>os.path.join\<close> for a
  second argument that is a plain file name, with the separator of the platform.
\<close>

definition os_path_exists :: "world \<Rightarrow> string \<Rightarrow> bool" where
  "os_path_exists w p = (map_of (cwd w) p \<noteq> None \<or> p \<in> set (other_paths w))"

definition os_path_join :: "world \<Rightarrow> string \<Rightarrow> string \<Rightarrow> string" where
  "os_path_join w a b = (if a = [] \<or> last a = os_sep w then a @ b else a @ [os_sep w] @ b)"

definition os_makedirs :: "world \<Rightarrow> string \<Rightarrow> (exn + unit) \<times> world" where
  "os_makedirs w name =
     (if map_of (cwd w) name \<noteq> None then (Inl (OSError ''File exists''), w)
      else
        case mkdir_fault w of
          Some msg \<Rightarrow> (Inl (OSError msg), w)
        | None \<Rightarrow> (Inr (), log_event (w\<lparr>cwd := cwd w @ [(name, Dir [])]\<rparr>) (Mkdir name)))"

text \<open>
  The one program run through \<^verbatim>\<open>subprocess.run\<close> is the extraction. Either it cannot be
  started and the call raises, or it runs to its end, and then the directory it was asked
  to unpack into may have appeared; its return code is not looked at.
\<close>

definition subprocess_run :: "world \<Rightarrow> string list \<Rightarrow> string \<Rightarrow> (exn + int) \<times> world" where
  "subprocess_run w args target =
     (case unpack_outcome w of
        RunRaises msg \<Rightarrow> (Inl (OSError msg), w)
      | RunExits rc created \<Rightarrow>
          (Inr rc,
           log_event
             (case created of
                None \<Rightarrow> w
              | Some n \<Rightarrow> w\<lparr>cwd := AList.update target n (cwd w)\<rparr>)
             (RunProc args)))"

subsection \<open>Paths\<close>

text \<open>
  A \<^verbatim>\<open>Path\<close> is the list of its components. \<open>stem\<close> is \<^verbatim>\<open>PurePath.stem\<close>: the name up to its
  last dot, unless that dot is the first or the last character of the name. \<open>glob_match\<close>
  is the pattern \<^verbatim>\<open>*.kcpps\<close>: the star also matches the empty string and a leading dot, and
  letters are compared as they are, as on a case-sensitive file system. \<open>path_glob\<close> is
  \<^verbatim>\<open>Path.glob\<close> on that pattern: it looks at the names of the entries of the directory,
  not at their kind, and yields nothing for a path that is not a directory.
\<close>

datatype path = Path (parts: "string list")

definition path_name :: "path \<Rightarrow> string" where
  "path_name p = (if parts p = [] then [] else last (parts p))"

fun rfind :: "char \<Rightarrow> string \<Rightarrow> int" where
  "rfind c [] = - 1"
| "rfind c (x # xs) =
     (let r = rfind c xs in if 0 \<le> r then r + 1 else if x = c then 0 else - 1)"

definition stem :: "path \<Rightarrow> string" where
  "stem p =
     (let name = path_name p; i = rfind CHR ''.'' name
      in if 0 < i \<and> i < int (length name) - 1 then take (nat i) name else name)"

definition glob_match :: "string \<Rightarrow> bool" where
  "glob_match name = suffix ''.kcpps'' name"

definition path_exists :: "world \<Rightarrow> string \<Rightarrow> bool" where
  "path_exists w configs_dir = (map_of (cwd w) configs_dir \<noteq> None)"

definition path_glob :: "world \<Rightarrow> string \<Rightarrow> path list" where
  "path_glob w configs_dir =
     (case map_of (cwd w) configs_dir of
        Some (Dir entries) \<Rightarrow>
          map (\<lambda>name. Path [configs_dir, name]) (filter glob_match (map fst entries))
      | _ \<Rightarrow> [])"

subsection \<open>Discovery\<close>

definition find_kcpps_files :: "world \<Rightarrow> string \<Rightarrow> path list \<times> world" where
  "find_kcpps_files w configs_dir =
     (if \<not> path_exists w configs_dir then
        ([], print w (''Error: Configs directory '' @ [CHR 0x27] @ configs_dir @ [CHR 0x27]
                        @ '' not found.''))
      else
        let kcpps_files = path_glob w configs_dir in
        if kcpps_files = [] then
          ([], print w (''Warning: No .kcpps files found in '' @ [CHR 0x27] @ configs_dir
                          @ [CHR 0x27] @ ''.''))
        else (kcpps_files, w))"

definition extract_filename :: "path \<Rightarrow> string" where
  "extract_filename file_path = stem file_path"

subsection \<open>Config synthesis\<close>

definition generate_config_entry :: "string \<Rightarrow> models" where
  "generate_config_entry filename =
     [(''koboldcpp/'' @ filename,
       [(''cmd'', ''kcpp-extracted/koboldcpp-launcher --config configs/'' @ filename
                   @ ''.kcpps --port ${PORT} --hordemodelname '' @ filename),
        (''checkEndpoint'', ''/ping'')])]"

fun dict_update :: "('k \<times> 'v) list \<Rightarrow> ('k \<times> 'v) list \<Rightarrow> ('k \<times> 'v) list" where
  "dict_update d [] = d"
| "dict_update d ((k, v) # rest) = dict_update (AList.update k v d) rest"

fun build_models :: "path list \<Rightarrow> models \<Rightarrow> models" where
  "build_models [] models = models"
| "build_models (kcpps_file # rest) models =
     build_models rest
       (dict_update models (generate_config_entry (extract_filename kcpps_file)))"

text \<open>
  \<open>open_dump\<close> is the \<^verbatim>\<open>with open(...)\<close> statement around \<^verbatim>\<open>yaml.dump\<close>. Opening a directory
  fails; otherwise the world says whether opening fails (the file stays as it was),
  whether the dump fails after the file has been truncated (a prefix of the text is
  left), or whether all of the text is written. The exceptions of a failing write are of
  class \<^verbatim>\<open>Exception\<close>; an interrupt is modelled at the blocking wait on the child only.
\<close>

definition open_dump :: "world \<Rightarrow> string \<Rightarrow> config \<Rightarrow> (exn + unit) \<times> world" where
  "open_dump w output_file config =
     (case map_of (cwd w) output_file of
        Some (Dir entries) \<Rightarrow> (Inl (OSError ''Is a directory''), w)
      | _ \<Rightarrow>
        (case write_fault w of
           OpenFails msg \<Rightarrow> (Inl (OSError msg), w)
         | DumpFails n msg \<Rightarrow>
             (Inl (OSError msg),
              log_event
                (w\<lparr>cwd := AList.update output_file (File (take n (yaml_dump w config))) (cwd w)\<rparr>)
                (OpenWrite output_file))
         | NoFault \<Rightarrow>
             (Inr (),
              log_event
                (w\<lparr>cwd := AList.update output_file (File (yaml_dump w config)) (cwd w)\<rparr>)
                (OpenWrite output_file))))"

definition generate_config_yaml :: "world \<Rightarrow> path list \<Rightarrow> string \<Rightarrow> (exn + bool) \<times> world" where
  "generate_config_yaml w kcpps_files output_file =
     (if kcpps_files = [] then (Inr False, print w ''No .kcpps files to process.'')
      else
        let models = build_models kcpps_files [];
            config = [(''models'', models)]
        in case open_dump w output_file config of
             (Inr u, w1) \<Rightarrow> (Inr True, print w1 (''Successfully generated '' @ output_file))
           | (Inl e, w1) \<Rightarrow>
               (case e of
                  OSError msg \<Rightarrow>
                    (Inr False, print w1 (''Error writing '' @ output_file @ '': '' @ msg))
                | KeyboardInterrupt \<Rightarrow> (Inl e, w1)
                | SystemExit a \<Rightarrow> (Inl e, w1)))"

subsection \<open>Process supervision\<close>

datatype popen = Popen "string list"

definition launch_llama_swap :: "world \<Rightarrow> popen option \<times> world" where
  "launch_llama_swap w =
     (let executable =
            (if platform_system w = ''Windows'' then os_path_join w (basepath w) ''llama-swap.exe''
             else os_path_join w (basepath w) ''llama-swap'')
      in if \<not> os_path_exists w executable then
           (None, print w (''Warning: '' @ executable @ '' not found. Skipping llama-swap launch.''))
         else
           let w1 = print w (''Launching '' @ executable @ ''...'') in
           case spawn_fault w1 of
             Some msg \<Rightarrow> (None, print w1 (''Error launching llama-swap: '' @ msg))
           | None \<Rightarrow> (Some (Popen [executable]), log_event (w1\<lparr>child := Running\<rparr>) (Spawn [executable])))"

definition popen_wait :: "world \<Rightarrow> (exn + int) option \<times> world" where
  "popen_wait w =
     (case child w of
        Exited rc \<Rightarrow> (Some (Inr rc), w)
      | _ \<Rightarrow>
        (case wait_outcomes w of
           [] \<Rightarrow> (None, log_event w Wait)
         | WaitForever # rest \<Rightarrow> (None, log_event w Wait)
         | WaitExits rc # rest \<Rightarrow>
             (Some (Inr rc), log_event (w\<lparr>child := Exited rc, wait_outcomes := rest\<rparr>) Wait)
         | WaitInterrupted # rest \<Rightarrow>
             (Some (Inl KeyboardInterrupt), log_event (w\<lparr>wait_outcomes := rest\<rparr>) Wait)))"

definition popen_terminate :: "world \<Rightarrow> world" where
  "popen_terminate w =
     (case child w of
        Running \<Rightarrow> log_event (w\<lparr>child := TermRequested\<rparr>) Terminate
      | _ \<Rightarrow> w)"

text \<open>
  \<open>supervise\<close> is the \<^verbatim>\<open>try\<close> statement of \<^verbatim>\<open>main\<close> around the first
  \<^verbatim>\<open>llama_swap_process.wait()\<close>: its handler catches \<^verbatim>\<open>KeyboardInterrupt\<close> only, and an
  exception raised inside the handler leaves \<^verbatim>\<open>main\<close>. The result \<open>None\<close> says that the
  call never returns; the world beside it is the one the program is blocked in.
\<close>

definition supervise :: "world \<Rightarrow> outcome option \<times> world" where
  "supervise w =
     (case popen_wait w of
        (None, w1) \<Rightarrow> (None, w1)
      | (Some (Inr rc), w1) \<Rightarrow> (Some Returned, w1)
      | (Some (Inl e), w1) \<Rightarrow>
          (if e = KeyboardInterrupt then
             (let w2 = print w1 (CHR 0x0A # ''Shutting down llama-swap...'');
                  w3 = popen_terminate w2
              in (case popen_wait w3 of
                    (None, w4) \<Rightarrow> (None, w4)
                  | (Some (Inr rc), w4) \<Rightarrow> (Some Returned, w4)
                  | (Some (Inl e'), w4) \<Rightarrow> (Some (Raised e'), w4)))
           else (Some (Raised e), w1)))"

subsection \<open>The program\<close>

definition main :: "world \<Rightarrow> outcome option \<times> world" where
  "main w0 =
     (let w = print w0 ''Kobold Swap'' in
      if \<not> os_path_exists w ''configs'' then
        (case os_makedirs w ''configs'' of
           (Inl e, w1) \<Rightarrow> (Some (Raised e), w1)
         | (Inr u, w1) \<Rightarrow>
             (Some (Raised (SystemExit (ArgStr []))),
              print w1 (''Configs folder created, place your .kcpps files here.''
                @ [CHR 0x0A] @ '' Make sure they are set to not show the launcher and don''
                @ [CHR 0x27] @ ''t launch a browser'')))
      else
        (case (if \<not> os_path_exists w ''kcpp-extracted'' then
                 subprocess_run w [''koboldcpp'', ''--unpack'', ''kcpp-extracted''] ''kcpp-extracted''
               else (Inr 0, w)) of
           (Inl e, w1) \<Rightarrow> (Some (Raised e), w1)
         | (Inr rc, w1) \<Rightarrow>
             (let (kcpps_files, w2) = find_kcpps_files w1 ''configs'' in
              if kcpps_files = [] then (Some Returned, print w2 ''No .kcpps files found. Exiting.'')
              else
                (case generate_config_yaml w2 kcpps_files ''config.yaml'' of
                   (Inl e, w3) \<Rightarrow> (Some (Raised e), w3)
                 | (Inr success, w3) \<Rightarrow>
                     (if success then
                        (let w4 = print w3 ''Config generation completed successfully!'';
                             (llama_swap_process, w5) = launch_llama_swap w4
                         in (case llama_swap_process of
                               None \<Rightarrow> (Some Returned, w5)
                             | Some p \<Rightarrow>
                                 supervise (print w5 ''llama-swap launched successfully!'')))
                      else
                        (Some (Raised (SystemExit (ArgInt 1))),
                         print w3 ''Config generation failed.''))))))"

text \<open>
  The status the process exits with, when it exits: 0 after \<^verbatim>\<open>main\<close> has returned, and what
  the interpreter makes of the exception otherwise.
\<close>

definition process_exit_status :: "world \<Rightarrow> int option" where
  "process_exit_status w = map_option exit_status (fst (main w))"

subsection \<open>Example worlds\<close>

text \<open>
  A plain block-style serializer stands in for the YAML library in the examples; the
  theorems hold for every serializer.
\<close>

definition example_dump :: "config \<Rightarrow> string" where
  "example_dump config =
     concat (map (\<lambda>(top, ms). top @ '':'' @ [CHR 0x0A] @
       concat (map (\<lambda>(key, fields). ''  '' @ key @ '':'' @ [CHR 0x0A] @
         concat (map (\<lambda>(field, v). ''    '' @ field @ '': '' @ v @ [CHR 0x0A]) fields)) ms)) config)"

definition example_world :: "directory \<Rightarrow> world" where
  "example_world d =
     \<lparr>cwd = d, other_paths = [''/opt/kobold-swap/llama-swap''], stdout = [], events = [],
      child = NotStarted, platform_system = ''Linux'', os_sep = CHR ''/'',
      basepath = ''/opt/kobold-swap'', yaml_dump = example_dump, mkdir_fault = None,
      unpack_outcome = RunExits 0 (Some (Dir [])), write_fault = NoFault, spawn_fault = None,
      wait_outcomes = [WaitExits 0]\<rparr>"

subsection \<open>Names for parts of the program\<close>

text \<open>
  \<open>config_item\<close> is the one key and value of the dictionary \<open>generate_config_entry\<close>
  returns. The abbreviations name three expressions of \<open>main\<close> and \<open>launch_llama_swap\<close>
  that the statements below repeat: the one-time extraction step, the path of the proxy
  executable, and what \<open>main\<close> does with the result of the launch.
\<close>

definition config_item :: "string \<Rightarrow> string \<times> entry" where
  "config_item filename = hd (generate_config_entry filename)"

abbreviation unpack_step :: "world \<Rightarrow> (exn + int) \<times> world" where
  "unpack_step w \<equiv>
     (if \<not> os_path_exists w ''kcpp-extracted'' then
        subprocess_run w [''koboldcpp'', ''--unpack'', ''kcpp-extracted''] ''kcpp-extracted''
      else (Inr 0, w))"

abbreviation llama_swap_path :: "world \<Rightarrow> string" where
  "llama_swap_path w \<equiv>
     (if platform_system w = ''Windows'' then os_path_join w (basepath w) ''llama-swap.exe''
      else os_path_join w (basepath w) ''llama-swap'')"

abbreviation after_launch :: "popen option \<times> world \<Rightarrow> outcome option \<times> world" where
  "after_launch r \<equiv>
     (case r of
        (None, w5) \<Rightarrow> (Some Returned, w5)
      | (Some p, w5) \<Rightarrow> supervise (print w5 ''llama-swap launched successfully!''))"

text \<open>
  \<open>reaches_launch w w4\<close> says that \<open>main\<close>, started in \<open>w\<close>, has written the config file
  and calls \<open>launch_llama_swap\<close> in the world \<open>w4\<close>.
\<close>

definition reaches_launch :: "world \<Rightarrow> world \<Rightarrow> bool" where
  "reaches_launch w w4 \<longleftrightarrow>
     main w = after_launch (launch_llama_swap w4)
     \<and> map_of (cwd w4) ''config.yaml''
         = Some (File (yaml_dump w [(''models'', build_models (path_glob w ''configs'') [])]))
     \<and> stdout w4 = stdout w @ [''Kobold Swap'', ''Successfully generated config.yaml'',
                                ''Config generation completed successfully!'']
     \<and> (\<exists>pre. events w4 = events w @ pre @ [OpenWrite ''config.yaml'']
              \<and> (pre = [] \<or> pre = [RunProc [''koboldcpp'', ''--unpack'', ''kcpp-extracted'']]))
     \<and> child w4 = child w \<and> spawn_fault w4 = spawn_fault w
     \<and> wait_outcomes w4 = wait_outcomes w
     \<and> llama_swap_path w4 = llama_swap_path w
     \<and> os_path_exists w4 (llama_swap_path w) = os_path_exists w (llama_swap_path w)"



section \<open>Config synthesis never raises\<close>

lemma open_dump_raises_Exception:
  "fst (open_dump w output_file config) = Inl e \<Longrightarrow> is_Exception e"
  by (auto simp: open_dump_def split: option.splits node.splits write_fault.splits)

lemma generate_config_yaml_empty:
  "generate_config_yaml w [] output_file = (Inr False, print w ''No .kcpps files to process.'')"
  by (simp add: generate_config_yaml_def)

lemma generate_config_yaml_result:
  assumes "kcpps_files \<noteq> []"
  shows "fst (generate_config_yaml w kcpps_files output_file) =
         Inr (fst (open_dump w output_file [(''models'', build_models kcpps_files [])]) = Inr ())"
proof (cases "open_dump w output_file [(''models'', build_models kcpps_files [])]")
  case (Pair r w1)
  show ?thesis
  proof (cases r)
    case (Inl e)
    with Pair open_dump_raises_Exception [of w output_file "[(''models'', build_models kcpps_files [])]" e]
    have "is_Exception e" by simp
    then obtain msg where "e = OSError msg" by (cases e) simp_all
    with Pair Inl show ?thesis using assms by (simp add: generate_config_yaml_def)
  next
    case (Inr u)
    with Pair show ?thesis using assms by (simp add: generate_config_yaml_def)
  qed
qed



section \<open>A working directory without the configs folder\<close>

lemma main_missing_configs:
  assumes "\<not> os_path_exists w ''configs''" and "mkdir_fault w = None"
  shows "fst (main w) = Some (Raised (SystemExit (ArgStr [])))"
    and "cwd (snd (main w)) = cwd w @ [(''configs'', Dir [])]"
    and "events (snd (main w)) = events w @ [Mkdir ''configs'']"
    and "stdout (snd (main w)) = stdout w @
           [''Kobold Swap'',
            ''Configs folder created, place your .kcpps files here.'' @ [CHR 0x0A]
              @ '' Make sure they are set to not show the launcher and don'' @ [CHR 0x27]
              @ ''t launch a browser'']"
  using assms
  by (simp_all add: main_def Let_def os_path_exists_def print_def os_makedirs_def log_event_def)

text \<open>
  C1. Started in an empty working directory, the program creates the configs folder,
  reports it and opens no output file, but it leaves through \<^verbatim>\<open>quit("")\<close>: the argument is
  a string, so the process exits with status 1 and not with 0.
\<close>

theorem missing_configs_exit_status:
  "process_exit_status (example_world []) = Some 1
   \<and> fst (main (example_world [])) = Some (Raised (SystemExit (ArgStr [])))
   \<and> cwd (snd (main (example_world []))) = [(''configs'', Dir [])]
   \<and> events (snd (main (example_world []))) = [Mkdir ''configs'']
   \<and> stdout (snd (main (example_world []))) =
         [''Kobold Swap'',
          ''Configs folder created, place your .kcpps files here.'' @ [CHR 0x0A]
            @ '' Make sure they are set to not show the launcher and don'' @ [CHR 0x27]
            @ ''t launch a browser'']
   \<and> map_of (cwd (snd (main (example_world [])))) ''config.yaml'' = None"
proof -
  have absent: "\<not> os_path_exists (example_world []) ''configs''"
    by (simp add: os_path_exists_def example_world_def)
  have mk: "mkdir_fault (example_world []) = None" by (simp add: example_world_def)
  note r = main_missing_configs [OF absent mk]
  have 1: "process_exit_status (example_world []) = Some 1"
    unfolding process_exit_status_def r(1) by simp
  have 2: "cwd (snd (main (example_world []))) = [(''configs'', Dir [])]"
    unfolding r(2) by (simp add: example_world_def)
  have 3: "events (snd (main (example_world []))) = [Mkdir ''configs'']"
    unfolding r(3) by (simp add: example_world_def)
  have 4: "stdout (snd (main (example_world []))) =
         [''Kobold Swap'',
          ''Configs folder created, place your .kcpps files here.'' @ [CHR 0x0A]
            @ '' Make sure they are set to not show the launcher and don'' @ [CHR 0x27]
            @ ''t launch a browser'']"
    unfolding r(4) by (simp add: example_world_def)
  have 5: "map_of (cwd (snd (main (example_world [])))) ''config.yaml'' = None"
    unfolding 2 by simp
  from 1 r(1) 2 3 4 5 show ?thesis by (intro conjI)
qed

section \<open>The synthesized mapping\<close>

lemma generate_config_entry_item: "generate_config_entry f = [config_item f]"
  by (simp add: config_item_def generate_config_entry_def)

lemma fst_config_item: "fst (config_item f) = ''koboldcpp/'' @ f"
  by (simp add: config_item_def generate_config_entry_def)

lemma config_item_key_inj: "fst (config_item f) = fst (config_item g) \<longleftrightarrow> f = g"
  by (simp add: fst_config_item)

lemma dict_update_single: "dict_update d [x] = AList.update (fst x) (snd x) d"
  by (cases x) simp

lemma build_models_step:
  "build_models (p # rest) models =
   build_models rest (AList.update (fst (config_item (extract_filename p)))
                        (snd (config_item (extract_filename p))) models)"
  by (simp add: generate_config_entry_item dict_update_single)

lemma update_new_key: "k \<notin> fst ` set al \<Longrightarrow> AList.update k v al = al @ [(k, v)]"
  by (induction al) auto

lemma set_update_subset: "set (AList.update k v al) \<subseteq> insert (k, v) (set al)"
  by (induction al) auto

lemma build_models_distinct_keys:
  "distinct (map fst acc) \<Longrightarrow> distinct (map fst (build_models fs acc))"
proof (induction fs arbitrary: acc)
  case Nil
  then show ?case by simp
next
  case (Cons p fs)
  show ?case
    unfolding build_models_step
    by (rule Cons.IH) (rule distinct_update [OF Cons.prems])
qed

lemma build_models_keys:
  "fst ` set (build_models fs acc) =
   fst ` set acc \<union> (\<lambda>p. fst (config_item (extract_filename p))) ` set fs"
proof (induction fs arbitrary: acc)
  case Nil
  then show ?case by simp
next
  case (Cons p fs)
  show ?case
    unfolding build_models_step Cons.IH dom_update by auto
qed

lemma build_models_items:
  assumes "x \<in> set (build_models fs acc)"
  shows "x \<in> set acc \<or> (\<exists>p \<in> set fs. x = config_item (extract_filename p))"
  using assms
proof (induction fs arbitrary: acc)
  case Nil
  then show ?case by simp
next
  case (Cons p fs)
  from Cons.prems have
    "x \<in> set (AList.update (fst (config_item (extract_filename p)))
                 (snd (config_item (extract_filename p))) acc)
     \<or> (\<exists>q \<in> set fs. x = config_item (extract_filename q))"
    unfolding build_models_step by (rule Cons.IH)
  then show ?case
    using set_update_subset [of "fst (config_item (extract_filename p))"
                                "snd (config_item (extract_filename p))" acc]
    by auto
qed

lemma build_models_distinct:
  assumes "distinct (map fst acc @ map (\<lambda>p. fst (config_item (extract_filename p))) fs)"
  shows "build_models fs acc = acc @ map (\<lambda>p. config_item (extract_filename p)) fs"
  using assms
proof (induction fs arbitrary: acc)
  case Nil
  then show ?case by simp
next
  case (Cons p fs)
  let ?k = "fst (config_item (extract_filename p))"
  let ?v = "snd (config_item (extract_filename p))"
  from Cons.prems have new: "?k \<notin> fst ` set acc" by auto
  then have upd: "AList.update ?k ?v acc = acc @ [config_item (extract_filename p)]"
    by (simp add: update_new_key)
  from Cons.prems have
    "distinct (map fst (acc @ [config_item (extract_filename p)])
               @ map (\<lambda>p. fst (config_item (extract_filename p))) fs)"
    by auto
  then have "build_models fs (acc @ [config_item (extract_filename p)]) =
             (acc @ [config_item (extract_filename p)]) @ map (\<lambda>p. config_item (extract_filename p)) fs"
    by (rule Cons.IH)
  then show ?case unfolding build_models_step upd by simp
qed

lemma build_models_length:
  "length (build_models fs []) = card (extract_filename ` set fs)"
proof -
  have d: "distinct (map fst (build_models fs []))"
    by (rule build_models_distinct_keys) simp
  have "length (build_models fs []) = length (map fst (build_models fs []))" by simp
  also have "\<dots> = card (set (map fst (build_models fs [])))"
    using d by (simp only: distinct_card)
  also have "set (map fst (build_models fs [])) =
             (\<lambda>f. fst (config_item f)) ` (extract_filename ` set fs)"
    using build_models_keys [of fs "[]"] by (simp add: image_image)
  also have "card \<dots> = card (extract_filename ` set fs)"
    by (rule card_image) (simp add: inj_on_def config_item_key_inj)
  finally show ?thesis .
qed

lemma config_item_cmd:
  "map_of (snd (config_item f)) ''cmd'' =
   Some (''kcpp-extracted/koboldcpp-launcher --config configs/'' @ f
         @ ''.kcpps --port ${PORT} --hordemodelname '' @ f)"
  by (simp add: config_item_def generate_config_entry_def)

lemma cmd_keeps_placeholder:
  "sublist ''${PORT}'' (''kcpp-extracted/koboldcpp-launcher --config configs/'' @ f
                        @ ''.kcpps --port ${PORT} --hordemodelname '' @ g)"
proof -
  have "''kcpp-extracted/koboldcpp-launcher --config configs/'' @ f
          @ ''.kcpps --port ${PORT} --hordemodelname '' @ g
        = (''kcpp-extracted/koboldcpp-launcher --config configs/'' @ f @ ''.kcpps --port '')
          @ ''${PORT}'' @ ('' --hordemodelname '' @ g)"
    by simp
  then show ?thesis unfolding sublist_def by blast
qed


section \<open>The stages of main\<close>

lemma find_kcpps_files_some:
  assumes "map_of (cwd w) configs_dir = Some (Dir entries)"
    and "filter glob_match (map fst entries) \<noteq> []"
  shows "find_kcpps_files w configs_dir =
         (map (\<lambda>name. Path [configs_dir, name]) (filter glob_match (map fst entries)), w)"
  using assms by (simp add: find_kcpps_files_def path_exists_def path_glob_def)

lemma find_kcpps_files_none:
  assumes "map_of (cwd w) configs_dir = Some (Dir entries)"
    and "filter glob_match (map fst entries) = []"
  shows "find_kcpps_files w configs_dir =
         ([], print w (''Warning: No .kcpps files found in '' @ [CHR 0x27] @ configs_dir
                         @ [CHR 0x27] @ ''.''))"
  using assms by (simp add: find_kcpps_files_def path_exists_def path_glob_def)

lemma open_dump_ok:
  assumes "write_fault w = NoFault" and "\<forall>es. map_of (cwd w) output_file \<noteq> Some (Dir es)"
  shows "open_dump w output_file config =
         (Inr (), log_event (w\<lparr>cwd := AList.update output_file (File (yaml_dump w config)) (cwd w)\<rparr>)
                    (OpenWrite output_file))"
proof (cases "map_of (cwd w) output_file")
  case None
  with assms show ?thesis by (simp add: open_dump_def)
next
  case (Some n)
  with assms show ?thesis by (cases n) (simp_all add: open_dump_def)
qed

lemma generate_config_yaml_ok:
  assumes "kcpps_files \<noteq> []" and "write_fault w = NoFault"
    and "\<forall>es. map_of (cwd w) output_file \<noteq> Some (Dir es)"
  shows "generate_config_yaml w kcpps_files output_file =
         (Inr True,
          print (log_event
                   (w\<lparr>cwd := AList.update output_file
                              (File (yaml_dump w [(''models'', build_models kcpps_files [])])) (cwd w)\<rparr>)
                   (OpenWrite output_file))
                (''Successfully generated '' @ output_file))"
  using assms
  by (simp add: generate_config_yaml_def Let_def open_dump_ok)

lemma unpack_step_ok:
  assumes "os_path_exists w ''kcpp-extracted'' \<or> (\<exists>rc created. unpack_outcome w = RunExits rc created)"
  shows "\<exists>rc c pre. unpack_step w = (Inr rc, w\<lparr>cwd := c, events := events w @ pre\<rparr>)
           \<and> (\<forall>k. k \<noteq> ''kcpp-extracted'' \<longrightarrow> map_of c k = map_of (cwd w) k)
           \<and> (pre = [] \<or> pre = [RunProc [''koboldcpp'', ''--unpack'', ''kcpp-extracted'']])"
proof (cases "os_path_exists w ''kcpp-extracted''")
  case True
  then have "unpack_step w = (Inr 0, w\<lparr>cwd := cwd w, events := events w @ []\<rparr>)" by simp
  then show ?thesis by blast
next
  case False
  with assms obtain rc created where out: "unpack_outcome w = RunExits rc created" by blast
  show ?thesis
  proof (cases created)
    case None
    with False out have
      "unpack_step w = (Inr rc, w\<lparr>cwd := cwd w,
         events := events w @ [RunProc [''koboldcpp'', ''--unpack'', ''kcpp-extracted'']]\<rparr>)"
      by (simp add: subprocess_run_def log_event_def)
    then show ?thesis by blast
  next
    case (Some n)
    with False out have
      "unpack_step w = (Inr rc, w\<lparr>cwd := AList.update ''kcpp-extracted'' n (cwd w),
         events := events w @ [RunProc [''koboldcpp'', ''--unpack'', ''kcpp-extracted'']]\<rparr>)"
      by (simp add: subprocess_run_def log_event_def)
    moreover have "\<forall>k. k \<noteq> ''kcpp-extracted'' \<longrightarrow>
        map_of (AList.update ''kcpp-extracted'' n (cwd w)) k = map_of (cwd w) k"
      by (simp add: update_conv')
    ultimately show ?thesis by blast
  qed
qed

lemma main_with_configs:
  assumes "os_path_exists w ''configs''"
  shows "main w =
     (case unpack_step (print w ''Kobold Swap'') of
        (Inl e, w1) \<Rightarrow> (Some (Raised e), w1)
      | (Inr rc, w1) \<Rightarrow>
          (let (kcpps_files, w2) = find_kcpps_files w1 ''configs'' in
           if kcpps_files = [] then (Some Returned, print w2 ''No .kcpps files found. Exiting.'')
           else
             (case generate_config_yaml w2 kcpps_files ''config.yaml'' of
                (Inl e, w3) \<Rightarrow> (Some (Raised e), w3)
              | (Inr success, w3) \<Rightarrow>
                  (if success then
                     after_launch (launch_llama_swap
                                     (print w3 ''Config generation completed successfully!''))
                   else
                     (Some (Raised (SystemExit (ArgInt 1))),
                      print w3 ''Config generation failed.'')))))"
proof -
  have "os_path_exists (print w ''Kobold Swap'') ''configs''"
    using assms by (simp add: os_path_exists_def print_def)
  then show ?thesis
    unfolding main_def Let_def by (simp only: not_True_eq_False if_False simp_thms split: prod.splits) 
qed


lemma main_to_launch:
  assumes configs: "map_of (cwd w) ''configs'' = Some (Dir entries)"
    and some: "filter glob_match (map fst entries) \<noteq> []"
    and unpack: "os_path_exists w ''kcpp-extracted''
                 \<or> (\<exists>rc created. unpack_outcome w = RunExits rc created)"
    and nofault: "write_fault w = NoFault"
    and nodir: "\<forall>es. map_of (cwd w) ''config.yaml'' \<noteq> Some (Dir es)"
  shows "\<exists>c pre.
     main w = after_launch (launch_llama_swap
       (w\<lparr>cwd := AList.update ''config.yaml''
                   (File (yaml_dump w [(''models'', build_models (path_glob w ''configs'') [])])) c,
          events := events w @ pre @ [OpenWrite ''config.yaml''],
          stdout := stdout w @ [''Kobold Swap'', ''Successfully generated config.yaml'',
                                ''Config generation completed successfully!'']\<rparr>))
     \<and> (\<forall>k. k \<noteq> ''kcpp-extracted'' \<longrightarrow> map_of c k = map_of (cwd w) k)
     \<and> (pre = [] \<or> pre = [RunProc [''koboldcpp'', ''--unpack'', ''kcpp-extracted'']])"
proof -
  let ?w0 = "print w ''Kobold Swap''"
  let ?files = "map (\<lambda>name. Path [''configs'', name]) (filter glob_match (map fst entries))"
  have files: "path_glob w ''configs'' = ?files"
    using configs by (simp add: path_glob_def)
  have nonempty: "?files \<noteq> []" using some by simp
  have ex: "os_path_exists w ''configs''" using configs by (simp add: os_path_exists_def)
  have "os_path_exists ?w0 ''kcpp-extracted''
        \<or> (\<exists>rc created. unpack_outcome ?w0 = RunExits rc created)"
    using unpack by (simp add: os_path_exists_def print_def)
  from unpack_step_ok [OF this] obtain rc c pre where
    step: "unpack_step ?w0 = (Inr rc, ?w0\<lparr>cwd := c, events := events ?w0 @ pre\<rparr>)"
    and same: "\<forall>k. k \<noteq> ''kcpp-extracted'' \<longrightarrow> map_of c k = map_of (cwd ?w0) k"
    and pre: "pre = [] \<or> pre = [RunProc [''koboldcpp'', ''--unpack'', ''kcpp-extracted'']]"
    by blast
  let ?w1 = "?w0\<lparr>cwd := c, events := events ?w0 @ pre\<rparr>"
  have same': "\<forall>k. k \<noteq> ''kcpp-extracted'' \<longrightarrow> map_of c k = map_of (cwd w) k"
    using same by (simp add: print_def)
  have c1: "map_of (cwd ?w1) ''configs'' = Some (Dir entries)"
    using same' configs by simp
  have found: "find_kcpps_files ?w1 ''configs'' = (?files, ?w1)"
    using find_kcpps_files_some [OF c1 some] .
  have wf: "write_fault ?w1 = NoFault" using nofault by (simp add: print_def)
  have nd: "\<forall>es. map_of (cwd ?w1) ''config.yaml'' \<noteq> Some (Dir es)"
    using same' nodir by simp
  note gen = generate_config_yaml_ok [OF nonempty wf nd]
  have "main w = after_launch (launch_llama_swap
       (w\<lparr>cwd := AList.update ''config.yaml''
                   (File (yaml_dump w [(''models'', build_models (path_glob w ''configs'') [])])) c,
          events := events w @ pre @ [OpenWrite ''config.yaml''],
          stdout := stdout w @ [''Kobold Swap'', ''Successfully generated config.yaml'',
                                ''Config generation completed successfully!'']\<rparr>))"
    unfolding main_with_configs [OF ex] step files
    using nonempty by (simp add: found gen) (simp add: print_def log_event_def)
  with same' pre show ?thesis by blast
qed

section \<open>Locating and launching the proxy\<close>

lemma launch_llama_swap_absent:
  assumes "\<not> os_path_exists w (llama_swap_path w)"
  shows "launch_llama_swap w =
         (None, print w (''Warning: '' @ llama_swap_path w
                           @ '' not found. Skipping llama-swap launch.''))"
  using assms by (simp add: launch_llama_swap_def Let_def)

lemma launch_llama_swap_spawned:
  assumes "os_path_exists w (llama_swap_path w)" and "spawn_fault w = None"
  shows "launch_llama_swap w =
         (Some (Popen [llama_swap_path w]),
          log_event ((print w (''Launching '' @ llama_swap_path w @ ''...''))\<lparr>child := Running\<rparr>)
            (Spawn [llama_swap_path w]))"
  using assms by (simp add: launch_llama_swap_def Let_def print_def)

lemma launch_llama_swap_spawn_error:
  assumes "os_path_exists w (llama_swap_path w)" and "spawn_fault w = Some msg"
  shows "launch_llama_swap w =
         (None, print (print w (''Launching '' @ llama_swap_path w @ ''...''))
                  (''Error launching llama-swap: '' @ msg))"
  using assms by (simp add: launch_llama_swap_def Let_def print_def)

lemma os_path_join_ends: "\<exists>x. os_path_join w a b = x @ b"
  by (auto simp: os_path_join_def)

lemma last_os_path_join: "b \<noteq> [] \<Longrightarrow> last (os_path_join w a b) = last b"
  by (simp add: os_path_join_def)

lemma suffix_last: "suffix xs ys \<Longrightarrow> xs \<noteq> [] \<Longrightarrow> last ys = last xs"
  by (auto simp: suffix_def)

lemma suffix_os_path_join: "suffix b (os_path_join w a b)"
  by (simp add: os_path_join_def suffix_def)

lemma llama_swap_path_suffix:
  "suffix ''.exe'' (llama_swap_path w) \<longleftrightarrow> platform_system w = ''Windows''"
proof (cases "platform_system w = ''Windows''")
  case True
  have "suffix ''.exe'' ''llama-swap.exe''" by (simp add: suffix_to_prefix)
  then have "suffix ''.exe'' (os_path_join w (basepath w) ''llama-swap.exe'')"
    using suffix_os_path_join [of "''llama-swap.exe''" w "basepath w"] suffix_order.trans by blast
  with True show ?thesis by simp
next
  case False
  have "last (os_path_join w (basepath w) ''llama-swap'') = CHR ''p''"
    by (simp add: last_os_path_join)
  then have "\<not> suffix ''.exe'' (os_path_join w (basepath w) ''llama-swap'')"
    using suffix_last [of "''.exe''" "os_path_join w (basepath w) ''llama-swap''"] by auto
  with False show ?thesis by simp
qed

lemma llama_swap_path_not_local:
  "llama_swap_path w \<noteq> ''config.yaml''" "llama_swap_path w \<noteq> ''kcpp-extracted''"
proof -
  have e: "last (os_path_join w (basepath w) ''llama-swap.exe'') = CHR ''e''"
    by (simp add: last_os_path_join)
  have p: "last (os_path_join w (basepath w) ''llama-swap'') = CHR ''p''"
    by (simp add: last_os_path_join)
  have l: "last ''config.yaml'' = CHR ''l''" and d: "last ''kcpp-extracted'' = CHR ''d''"
    by simp_all
  show "llama_swap_path w \<noteq> ''config.yaml''"
  proof
    assume "llama_swap_path w = ''config.yaml''"
    then have "last (llama_swap_path w) = CHR ''l''" using l by simp
    then show False using e p by (simp split: if_splits)
  qed
  show "llama_swap_path w \<noteq> ''kcpp-extracted''"
  proof
    assume "llama_swap_path w = ''kcpp-extracted''"
    then have "last (llama_swap_path w) = CHR ''d''" using d by simp
    then show False using e p by (simp split: if_splits)
  qed
qed

section \<open>Supervising the child\<close>




lemma cwd_popen_wait: "cwd (snd (popen_wait w)) = cwd w"
  by (simp add: popen_wait_def log_event_def
        split: child_state.splits list.splits wait_outcome.splits)

lemma cwd_popen_terminate: "cwd (popen_terminate w) = cwd w"
  by (simp add: popen_terminate_def log_event_def split: child_state.splits)

lemma cwd_supervise: "cwd (snd (supervise w)) = cwd w"
proof (cases "popen_wait w")
  case (Pair r w1)
  then have w1: "cwd w1 = cwd w" using cwd_popen_wait [of w] by simp
  let ?w3 = "popen_terminate (print w1 (CHR 0x0A # ''Shutting down llama-swap...''))"
  have "cwd (snd (popen_wait ?w3)) = cwd w"
    using w1 by (simp add: cwd_popen_wait cwd_popen_terminate print_def)
  with Pair w1 show ?thesis
    by (auto simp: supervise_def Let_def split: option.splits sum.splits prod.splits)
qed

lemma cwd_launch_llama_swap: "cwd (snd (launch_llama_swap w)) = cwd w"
  by (simp add: launch_llama_swap_def Let_def print_def log_event_def split: option.splits)

lemma cwd_after_launch: "cwd (snd (after_launch (launch_llama_swap w))) = cwd w"
proof (cases "launch_llama_swap w")
  case (Pair p w5)
  then have "cwd w5 = cwd w" using cwd_launch_llama_swap [of w] by simp
  with Pair show ?thesis by (cases p) (simp_all add: cwd_supervise print_def)
qed


lemma main_launch_world:
  assumes configs: "map_of (cwd w) ''configs'' = Some (Dir entries)"
    and some: "filter glob_match (map fst entries) \<noteq> []"
    and unpack: "os_path_exists w ''kcpp-extracted''
                 \<or> (\<exists>rc created. unpack_outcome w = RunExits rc created)"
    and nofault: "write_fault w = NoFault"
    and nodir: "\<forall>es. map_of (cwd w) ''config.yaml'' \<noteq> Some (Dir es)"
  shows "\<exists>w4. reaches_launch w w4"
proof -
  from main_to_launch [OF assms] obtain c pre where
    m: "main w = after_launch (launch_llama_swap
       (w\<lparr>cwd := AList.update ''config.yaml''
                   (File (yaml_dump w [(''models'', build_models (path_glob w ''configs'') [])])) c,
          events := events w @ pre @ [OpenWrite ''config.yaml''],
          stdout := stdout w @ [''Kobold Swap'', ''Successfully generated config.yaml'',
                                ''Config generation completed successfully!'']\<rparr>))"
    and same: "\<forall>k. k \<noteq> ''kcpp-extracted'' \<longrightarrow> map_of c k = map_of (cwd w) k"
    and pre: "pre = [] \<or> pre = [RunProc [''koboldcpp'', ''--unpack'', ''kcpp-extracted'']]"
    by (elim exE conjE)
  let ?w4 = "w\<lparr>cwd := AList.update ''config.yaml''
                   (File (yaml_dump w [(''models'', build_models (path_glob w ''configs'') [])])) c,
          events := events w @ pre @ [OpenWrite ''config.yaml''],
          stdout := stdout w @ [''Kobold Swap'', ''Successfully generated config.yaml'',
                                ''Config generation completed successfully!'']\<rparr>"
  have path: "llama_swap_path ?w4 = llama_swap_path w"
    by (simp add: os_path_join_def)
  have "map_of (cwd ?w4) (llama_swap_path w) = map_of (cwd w) (llama_swap_path w)"
    using same llama_swap_path_not_local [of w] by (simp add: update_conv')
  then have ex: "os_path_exists ?w4 (llama_swap_path w) = os_path_exists w (llama_swap_path w)"
    unfolding os_path_exists_def by simp
  have written: "map_of (cwd ?w4) ''config.yaml''
       = Some (File (yaml_dump w [(''models'', build_models (path_glob w ''configs'') [])]))"
    by (simp add: update_conv')
  have ev: "\<exists>p. events ?w4 = events w @ p @ [OpenWrite ''config.yaml'']
              \<and> (p = [] \<or> p = [RunProc [''koboldcpp'', ''--unpack'', ''kcpp-extracted'']])"
    using pre by (intro exI [of _ pre]) simp
  have "reaches_launch w ?w4"
    unfolding reaches_launch_def
    by (intro conjI) (use m path ex written ev in \<open>simp_all only: simp_thms\<close>, simp_all)
  then show ?thesis ..
qed

lemma main_missing_executable:
  assumes absent: "\<not> os_path_exists w (llama_swap_path w)"
    and configs: "map_of (cwd w) ''configs'' = Some (Dir entries)"
    and some: "filter glob_match (map fst entries) \<noteq> []"
    and unpack: "os_path_exists w ''kcpp-extracted''
                 \<or> (\<exists>rc created. unpack_outcome w = RunExits rc created)"
    and nofault: "write_fault w = NoFault"
    and nodir: "\<forall>es. map_of (cwd w) ''config.yaml'' \<noteq> Some (Dir es)"
  shows "fst (main w) = Some Returned
        \<and> process_exit_status w = Some 0
        \<and> map_of (cwd (snd (main w))) ''config.yaml''
            = Some (File (yaml_dump w [(''models'', build_models (path_glob w ''configs'') [])]))
        \<and> last (stdout (snd (main w)))
            = ''Warning: '' @ llama_swap_path w @ '' not found. Skipping llama-swap launch.''
        \<and> child (snd (main w)) = child w
        \<and> (\<forall>args. Spawn args \<in> set (events (snd (main w))) \<longrightarrow> Spawn args \<in> set (events w))"
proof -
  from main_launch_world [OF configs some unpack nofault nodir]
  obtain w4 where r: "reaches_launch w w4" ..
  then have m: "main w = after_launch (launch_llama_swap w4)"
    and written: "map_of (cwd w4) ''config.yaml''
       = Some (File (yaml_dump w [(''models'', build_models (path_glob w ''configs'') [])]))"
    and ch: "child w4 = child w"
    and path: "llama_swap_path w4 = llama_swap_path w"
    and ex: "os_path_exists w4 (llama_swap_path w) = os_path_exists w (llama_swap_path w)"
    unfolding reaches_launch_def by blast+
  from r obtain pre where
    ev: "events w4 = events w @ pre @ [OpenWrite ''config.yaml'']"
    and pre: "pre = [] \<or> pre = [RunProc [''koboldcpp'', ''--unpack'', ''kcpp-extracted'']]"
    unfolding reaches_launch_def by blast
  have "\<not> os_path_exists w4 (llama_swap_path w4)" using absent ex path by simp
  from launch_llama_swap_absent [OF this] path
  have l: "launch_llama_swap w4 =
         (None, print w4 (''Warning: '' @ llama_swap_path w
                           @ '' not found. Skipping llama-swap launch.''))"
    by simp
  have result: "main w = (Some Returned, print w4 (''Warning: '' @ llama_swap_path w
                           @ '' not found. Skipping llama-swap launch.''))"
    unfolding m l by simp
  have 1: "fst (main w) = Some Returned" unfolding result by simp
  have 2: "process_exit_status w = Some 0" unfolding process_exit_status_def result by simp
  have 3: "map_of (cwd (snd (main w))) ''config.yaml''
            = Some (File (yaml_dump w [(''models'', build_models (path_glob w ''configs'') [])]))"
    unfolding result using written by (simp add: print_def)
  have 4: "last (stdout (snd (main w)))
            = ''Warning: '' @ llama_swap_path w @ '' not found. Skipping llama-swap launch.''"
    unfolding result by (simp add: print_def)
  have 5: "child (snd (main w)) = child w" unfolding result using ch by (simp add: print_def)
  have "set (events (snd (main w))) \<subseteq> set (events w) \<union> {OpenWrite ''config.yaml'',
          RunProc [''koboldcpp'', ''--unpack'', ''kcpp-extracted'']}"
    unfolding result using ev pre by (auto simp: print_def)
  then have 6: "\<forall>args. Spawn args \<in> set (events (snd (main w))) \<longrightarrow> Spawn args \<in> set (events w)"
    by blast
  from 1 2 3 4 5 6 show ?thesis by (intro conjI)
qed

text \<open>
  C8. The proxy executable is looked for in the directory of the program itself, under the
  name \<^verbatim>\<open>llama-swap.exe\<close> when \<^verbatim>\<open>platform.system()\<close> is \<^verbatim>\<open>Windows\<close> and \<^verbatim>\<open>llama-swap\<close>
  otherwise, so the path ends in \<^verbatim>\<open>.exe\<close> exactly on Windows. When nothing exists at that
  path, \<open>launch_llama_swap\<close> prints a warning naming it and returns no process. In a run
  of \<open>main\<close> that gets as far as the launch, this is not fatal: \<open>main\<close> returns, the exit
  status is 0, the config file has been written, and no child was spawned.
\<close>

theorem proxy_executable_located:
  "(suffix ''.exe'' (llama_swap_path w) \<longleftrightarrow> platform_system w = ''Windows'')
   \<and> llama_swap_path w =
       os_path_join w (basepath w)
         (if platform_system w = ''Windows'' then ''llama-swap.exe'' else ''llama-swap'')
   \<and> (os_path_exists w (llama_swap_path w) \<and> spawn_fault w = None \<longrightarrow>
        fst (launch_llama_swap w) = Some (Popen [llama_swap_path w]))
   \<and> (\<not> os_path_exists w (llama_swap_path w) \<longrightarrow>
        launch_llama_swap w =
          (None, print w (''Warning: '' @ llama_swap_path w
                            @ '' not found. Skipping llama-swap launch.'')))
   \<and> (\<not> os_path_exists w (llama_swap_path w)
        \<and> map_of (cwd w) ''configs'' = Some (Dir entries)
        \<and> filter glob_match (map fst entries) \<noteq> []
        \<and> (os_path_exists w ''kcpp-extracted''
             \<or> (\<exists>rc created. unpack_outcome w = RunExits rc created))
        \<and> write_fault w = NoFault
        \<and> (\<forall>es. map_of (cwd w) ''config.yaml'' \<noteq> Some (Dir es)) \<longrightarrow>
        fst (main w) = Some Returned
        \<and> process_exit_status w = Some 0
        \<and> map_of (cwd (snd (main w))) ''config.yaml''
            = Some (File (yaml_dump w [(''models'', build_models (path_glob w ''configs'') [])]))
        \<and> last (stdout (snd (main w)))
            = ''Warning: '' @ llama_swap_path w @ '' not found. Skipping llama-swap launch.''
        \<and> child (snd (main w)) = child w
        \<and> (\<forall>args. Spawn args \<in> set (events (snd (main w))) \<longrightarrow> Spawn args \<in> set (events w)))"
proof -
  have a: "suffix ''.exe'' (llama_swap_path w) \<longleftrightarrow> platform_system w = ''Windows''"
    by (rule llama_swap_path_suffix)
  have b: "llama_swap_path w =
        os_path_join w (basepath w)
          (if platform_system w = ''Windows'' then ''llama-swap.exe'' else ''llama-swap'')"
    by simp
  have c: "os_path_exists w (llama_swap_path w) \<and> spawn_fault w = None \<longrightarrow>
        fst (launch_llama_swap w) = Some (Popen [llama_swap_path w])"
    using launch_llama_swap_spawned [of w] by simp
  have d: "\<not> os_path_exists w (llama_swap_path w) \<longrightarrow>
        launch_llama_swap w =
          (None, print w (''Warning: '' @ llama_swap_path w
                            @ '' not found. Skipping llama-swap launch.''))"
    using launch_llama_swap_absent [of w] by blast
  have e: "\<not> os_path_exists w (llama_swap_path w)
        \<and> map_of (cwd w) ''configs'' = Some (Dir entries)
        \<and> filter glob_match (map fst entries) \<noteq> []
        \<and> (os_path_exists w ''kcpp-extracted''
             \<or> (\<exists>rc created. unpack_outcome w = RunExits rc created))
        \<and> write_fault w = NoFault
        \<and> (\<forall>es. map_of (cwd w) ''config.yaml'' \<noteq> Some (Dir es)) \<longrightarrow>
        fst (main w) = Some Returned
        \<and> process_exit_status w = Some 0
        \<and> map_of (cwd (snd (main w))) ''config.yaml''
            = Some (File (yaml_dump w [(''models'', build_models (path_glob w ''configs'') [])]))
        \<and> last (stdout (snd (main w)))
            = ''Warning: '' @ llama_swap_path w @ '' not found. Skipping llama-swap launch.''
        \<and> child (snd (main w)) = child w
        \<and> (\<forall>args. Spawn args \<in> set (events (snd (main w))) \<longrightarrow> Spawn args \<in> set (events w))"
    using main_missing_executable [of w entries] by blast
  from a b c d e show ?thesis by (intro conjI)
qed

theorem proxy_executable_located_witness:
  "fst (main ((example_world [(''configs'', Dir [(''a.kcpps'', File [])])])\<lparr>other_paths := []\<rparr>))
     = Some Returned
   \<and> process_exit_status ((example_world [(''configs'', Dir [(''a.kcpps'', File [])])])\<lparr>other_paths := []\<rparr>)
     = Some 0
   \<and> child (snd (main ((example_world [(''configs'', Dir [(''a.kcpps'', File [])])])\<lparr>other_paths := []\<rparr>)))
     = NotStarted"
proof -
  let ?w = "(example_world [(''configs'', Dir [(''a.kcpps'', File [])])])\<lparr>other_paths := []\<rparr>"
  have hyps: "\<not> os_path_exists ?w (llama_swap_path ?w)
        \<and> map_of (cwd ?w) ''configs'' = Some (Dir [(''a.kcpps'', File [])])
        \<and> filter glob_match (map fst [(''a.kcpps'', File [])]) \<noteq> []
        \<and> (os_path_exists ?w ''kcpp-extracted''
             \<or> (\<exists>rc created. unpack_outcome ?w = RunExits rc created))
        \<and> write_fault ?w = NoFault
        \<and> (\<forall>es. map_of (cwd ?w) ''config.yaml'' \<noteq> Some (Dir es))"
    by (simp add: example_world_def os_path_exists_def os_path_join_def glob_match_def
          suffix_to_prefix)
  have start: "child ?w = NotStarted" by (simp add: example_world_def)
  note r = proxy_executable_located [of ?w "[(''a.kcpps'', File [])]",
             THEN conjunct2, THEN conjunct2, THEN conjunct2, THEN conjunct2, THEN mp, OF hyps]
  from r have "fst (main ?w) = Some Returned" and "process_exit_status ?w = Some 0"
    and "child (snd (main ?w)) = child ?w"
    by blast+
  with start show ?thesis by (simp only: simp_thms)
qed


section \<open>An interrupt while the child runs\<close>











section \<open>A configs directory without configuration files\<close>

lemma main_no_input:
  assumes configs: "map_of (cwd w) ''configs'' = Some (Dir entries)"
    and none: "filter glob_match (map fst entries) = []"
    and unpack: "os_path_exists w ''kcpp-extracted''
                 \<or> (\<exists>rc created. unpack_outcome w = RunExits rc created)"
  shows "\<exists>c pre. main w =
           (Some Returned,
            w\<lparr>cwd := c, events := events w @ pre,
              stdout := stdout w @
                [''Kobold Swap'',
                 ''Warning: No .kcpps files found in '' @ [CHR 0x27] @ ''configs'' @ [CHR 0x27] @ ''.'',
                 ''No .kcpps files found. Exiting.'']\<rparr>)
         \<and> (\<forall>k. k \<noteq> ''kcpp-extracted'' \<longrightarrow> map_of c k = map_of (cwd w) k)
         \<and> (pre = [] \<or> pre = [RunProc [''koboldcpp'', ''--unpack'', ''kcpp-extracted'']])"
proof -
  let ?w0 = "print w ''Kobold Swap''"
  have ex: "os_path_exists w ''configs''" using configs by (simp add: os_path_exists_def)
  have "os_path_exists ?w0 ''kcpp-extracted''
        \<or> (\<exists>rc created. unpack_outcome ?w0 = RunExits rc created)"
    using unpack by (simp add: os_path_exists_def print_def)
  from unpack_step_ok [OF this] obtain rc c pre where
    step: "unpack_step ?w0 = (Inr rc, ?w0\<lparr>cwd := c, events := events ?w0 @ pre\<rparr>)"
    and same: "\<forall>k. k \<noteq> ''kcpp-extracted'' \<longrightarrow> map_of c k = map_of (cwd ?w0) k"
    and pre: "pre = [] \<or> pre = [RunProc [''koboldcpp'', ''--unpack'', ''kcpp-extracted'']]"
    by blast
  let ?w1 = "?w0\<lparr>cwd := c, events := events ?w0 @ pre\<rparr>"
  have same': "\<forall>k. k \<noteq> ''kcpp-extracted'' \<longrightarrow> map_of c k = map_of (cwd w) k"
    using same by (simp add: print_def)
  have c1: "map_of (cwd ?w1) ''configs'' = Some (Dir entries)"
    using same' configs by simp
  note found = find_kcpps_files_none [OF c1 none]
  have "main w =
           (Some Returned,
            w\<lparr>cwd := c, events := events w @ pre,
              stdout := stdout w @
                [''Kobold Swap'',
                 ''Warning: No .kcpps files found in '' @ [CHR 0x27] @ ''configs'' @ [CHR 0x27] @ ''.'',
                 ''No .kcpps files found. Exiting.'']\<rparr>)"
    unfolding main_with_configs [OF ex] step
    by (simp add: found) (simp add: print_def)
  with same' pre show ?thesis by blast
qed

text \<open>
  C6, for runs that get as far as discovery. The configs directory exists and none of its
  entries matches, and the one-time extraction step does not raise (its directory is there already, or the external program
  could be run). Then the program reports the condition twice (the warning of discovery and
  the notice of \<open>main\<close>), \<open>main\<close> returns and the exit status is 0; the entry
  \<^verbatim>\<open>config.yaml\<close> of the working directory is what it was, and no file is opened for writing.
\<close>

theorem no_input_exits_cleanly:
  assumes configs: "map_of (cwd w) ''configs'' = Some (Dir entries)"
    and none: "filter glob_match (map fst entries) = []"
    and unpack: "os_path_exists w ''kcpp-extracted''
                 \<or> (\<exists>rc created. unpack_outcome w = RunExits rc created)"
  shows "fst (main w) = Some Returned
    \<and> process_exit_status w = Some 0
    \<and> stdout (snd (main w)) = stdout w @
         [''Kobold Swap'',
          ''Warning: No .kcpps files found in '' @ [CHR 0x27] @ ''configs'' @ [CHR 0x27] @ ''.'',
          ''No .kcpps files found. Exiting.'']
    \<and> map_of (cwd (snd (main w))) ''config.yaml'' = map_of (cwd w) ''config.yaml''
    \<and> (\<forall>f. OpenWrite f \<in> set (events (snd (main w))) \<longrightarrow> OpenWrite f \<in> set (events w))"
proof -
  from main_no_input [OF assms] obtain c pre where
    m: "main w =
           (Some Returned,
            w\<lparr>cwd := c, events := events w @ pre,
              stdout := stdout w @
                [''Kobold Swap'',
                 ''Warning: No .kcpps files found in '' @ [CHR 0x27] @ ''configs'' @ [CHR 0x27] @ ''.'',
                 ''No .kcpps files found. Exiting.'']\<rparr>)"
    and same: "\<forall>k. k \<noteq> ''kcpp-extracted'' \<longrightarrow> map_of c k = map_of (cwd w) k"
    and pre: "pre = [] \<or> pre = [RunProc [''koboldcpp'', ''--unpack'', ''kcpp-extracted'']]"
    by blast
  have 1: "fst (main w) = Some Returned" unfolding m by simp
  have 2: "process_exit_status w = Some 0" unfolding process_exit_status_def m by simp
  have 3: "stdout (snd (main w)) = stdout w @
         [''Kobold Swap'',
          ''Warning: No .kcpps files found in '' @ [CHR 0x27] @ ''configs'' @ [CHR 0x27] @ ''.'',
          ''No .kcpps files found. Exiting.'']"
    unfolding m by simp
  have 4: "map_of (cwd (snd (main w))) ''config.yaml'' = map_of (cwd w) ''config.yaml''"
    unfolding m using same by simp
  have 5: "\<forall>f. OpenWrite f \<in> set (events (snd (main w))) \<longrightarrow> OpenWrite f \<in> set (events w)"
    unfolding m using pre by auto
  from 1 2 3 4 5 show ?thesis by (intro conjI)
qed

theorem no_input_exits_cleanly_witness:
  "fst (main (example_world [(''configs'', Dir [(''notes.txt'', File [])])])) = Some Returned
   \<and> process_exit_status (example_world [(''configs'', Dir [(''notes.txt'', File [])])]) = Some 0
   \<and> map_of (cwd (snd (main (example_world [(''configs'', Dir [(''notes.txt'', File [])])]))))
         ''config.yaml'' = None"
proof -
  let ?w = "example_world [(''configs'', Dir [(''notes.txt'', File [])])]"
  have configs: "map_of (cwd ?w) ''configs'' = Some (Dir [(''notes.txt'', File [])])"
    by (simp add: example_world_def)
  have none: "filter glob_match (map fst [(''notes.txt'', File [])]) = []"
    by (simp add: glob_match_def suffix_to_prefix)
  have unpack: "os_path_exists ?w ''kcpp-extracted''
                \<or> (\<exists>rc created. unpack_outcome ?w = RunExits rc created)"
    by (simp add: example_world_def)
  have before: "map_of (cwd ?w) ''config.yaml'' = None"
    by (simp add: example_world_def)
  note r = no_input_exits_cleanly [OF configs none unpack]
  from r have "fst (main ?w) = Some Returned" and "process_exit_status ?w = Some 0"
    and "map_of (cwd (snd (main ?w))) ''config.yaml'' = map_of (cwd ?w) ''config.yaml''"
    by blast+
  with before show ?thesis by (simp only: simp_thms)
qed

lemma main_extraction_raises:
  assumes configs: "os_path_exists w ''configs''"
    and missing: "\<not> os_path_exists w ''kcpp-extracted''"
    and raises: "unpack_outcome w = RunRaises msg"
  shows "main w = (Some (Raised (OSError msg)), print w ''Kobold Swap'')"
proof -
  let ?w0 = "print w ''Kobold Swap''"
  have m: "\<not> os_path_exists ?w0 ''kcpp-extracted''"
    using missing by (simp add: os_path_exists_def print_def)
  have r: "unpack_outcome ?w0 = RunRaises msg" using raises by (simp add: print_def)
  have "unpack_step ?w0 = (Inl (OSError msg), ?w0)"
    using m r by (simp add: subprocess_run_def)
  then show ?thesis
    unfolding main_with_configs [OF configs] by simp
qed


text \<open>
  C6 does not hold when the extraction program cannot be started: \<^verbatim>\<open>subprocess.run\<close>
  raises before discovery, nothing is reported and the exit status is 1.
\<close>

theorem extraction_failure_counterexample:
  "process_exit_status
     ((example_world [(''configs'', Dir [(''notes.txt'', File [])])])
        \<lparr>unpack_outcome := RunRaises ''No such file or directory''\<rparr>) = Some 1
   \<and> stdout (snd (main
        ((example_world [(''configs'', Dir [(''notes.txt'', File [])])])
           \<lparr>unpack_outcome := RunRaises ''No such file or directory''\<rparr>))) = [''Kobold Swap'']"
proof -
  let ?w = "(example_world [(''configs'', Dir [(''notes.txt'', File [])])])
              \<lparr>unpack_outcome := RunRaises ''No such file or directory''\<rparr>"
  have configs: "os_path_exists ?w ''configs''"
    by (simp add: os_path_exists_def example_world_def)
  have missing: "\<not> os_path_exists ?w ''kcpp-extracted''"
    by (simp add: os_path_exists_def example_world_def)
  have raises: "unpack_outcome ?w = RunRaises ''No such file or directory''"
    by (simp add: example_world_def)
  note m = main_extraction_raises [OF configs missing raises]
  have a: "process_exit_status ?w = Some 1"
    unfolding process_exit_status_def m by simp
  have b: "stdout (snd (main ?w)) = [''Kobold Swap'']"
    unfolding m by (simp add: print_def example_world_def)
  from a b show ?thesis by (rule conjI)
qed


section \<open>Discovery\<close>

lemma rfind_absent: "c \<notin> set xs \<Longrightarrow> rfind c xs = - 1"
  by (induction xs) (auto simp: Let_def)

lemma rfind_last_occurrence:
  "c \<notin> set ys \<Longrightarrow> rfind c (xs @ c # ys) = int (length xs)"
  by (induction xs) (auto simp: Let_def rfind_absent)

lemma path_name_two: "path_name (Path [d, name]) = name"
  by (simp add: path_name_def)

lemma stem_kcpps:
  "stem (Path [d, b @ ''.kcpps'']) = (if b = [] then ''.kcpps'' else b)"
proof -
  have "rfind CHR ''.'' (b @ CHR ''.'' # ''kcpps'') = int (length b)"
    by (rule rfind_last_occurrence) simp
  then have r: "rfind CHR ''.'' (b @ ''.kcpps'') = int (length b)" by simp
  show ?thesis
    unfolding stem_def path_name_two Let_def r by simp
qed


lemma find_kcpps_files_paths:
  assumes "map_of (cwd w) configs_dir = Some (Dir entries)"
  shows "fst (find_kcpps_files w configs_dir) =
         map (\<lambda>name. Path [configs_dir, name]) (filter glob_match (map fst entries))"
  using assms by (simp add: find_kcpps_files_def path_exists_def path_glob_def Let_def)





section \<open>The shape of the mapping\<close>

lemma build_models_distinct_ids:
  assumes "distinct (map extract_filename fs)"
  shows "build_models fs [] = map (\<lambda>p. config_item (extract_filename p)) fs"
proof -
  have "inj_on (\<lambda>f. fst (config_item f)) (set (map extract_filename fs))"
    by (simp add: inj_on_def config_item_key_inj)
  with assms have "distinct (map (\<lambda>f. fst (config_item f)) (map extract_filename fs))"
    by (simp only: distinct_map simp_thms)
  then have "distinct (map fst [] @ map (\<lambda>p. fst (config_item (extract_filename p))) fs)"
    by (simp add: comp_def)
  from build_models_distinct [OF this] show ?thesis by simp
qed


text \<open>
  C2, for what holds of every list. The mapping has one entry for each distinct identifier: as many entries
  as there are files when the identifiers are pairwise distinct, and then the keys follow
  the order of the files. Every entry has a key \<^verbatim>\<open>koboldcpp/<identifier>\<close> and a command that
  is the fixed template with the identifier put in at two places, after
  \<^verbatim>\<open>--config configs/\<close> and after \<^verbatim>\<open>--hordemodelname\<close>, and with the token \<^verbatim>\<open>${PORT}\<close> left as
  it is.
\<close>

theorem mapping_shape:
  "length (build_models kcpps_files []) = card (extract_filename ` set kcpps_files)
   \<and> (distinct (map extract_filename kcpps_files) \<longrightarrow>
        length (build_models kcpps_files []) = length kcpps_files
        \<and> map fst (build_models kcpps_files [])
            = map (\<lambda>p. ''koboldcpp/'' @ extract_filename p) kcpps_files)
   \<and> (\<forall>(key, fields) \<in> set (build_models kcpps_files []).
        \<exists>p \<in> set kcpps_files.
          key = ''koboldcpp/'' @ extract_filename p
          \<and> map_of fields ''cmd'' =
              Some (''kcpp-extracted/koboldcpp-launcher --config configs/'' @ extract_filename p
                    @ ''.kcpps --port ${PORT} --hordemodelname '' @ extract_filename p)
          \<and> sublist ''${PORT}''
                (''kcpp-extracted/koboldcpp-launcher --config configs/'' @ extract_filename p
                 @ ''.kcpps --port ${PORT} --hordemodelname '' @ extract_filename p))"
proof (intro conjI)
  show "length (build_models kcpps_files []) = card (extract_filename ` set kcpps_files)"
    by (rule build_models_length)
  show "distinct (map extract_filename kcpps_files) \<longrightarrow>
        length (build_models kcpps_files []) = length kcpps_files
        \<and> map fst (build_models kcpps_files [])
            = map (\<lambda>p. ''koboldcpp/'' @ extract_filename p) kcpps_files"
  proof
    assume "distinct (map extract_filename kcpps_files)"
    then have "build_models kcpps_files [] =
               map (\<lambda>p. config_item (extract_filename p)) kcpps_files"
      by (rule build_models_distinct_ids)
    then show "length (build_models kcpps_files []) = length kcpps_files
        \<and> map fst (build_models kcpps_files [])
            = map (\<lambda>p. ''koboldcpp/'' @ extract_filename p) kcpps_files"
      by (simp add: fst_config_item comp_def)
  qed
  show "\<forall>(key, fields) \<in> set (build_models kcpps_files []).
        \<exists>p \<in> set kcpps_files.
          key = ''koboldcpp/'' @ extract_filename p
          \<and> map_of fields ''cmd'' =
              Some (''kcpp-extracted/koboldcpp-launcher --config configs/'' @ extract_filename p
                    @ ''.kcpps --port ${PORT} --hordemodelname '' @ extract_filename p)
          \<and> sublist ''${PORT}''
                (''kcpp-extracted/koboldcpp-launcher --config configs/'' @ extract_filename p
                 @ ''.kcpps --port ${PORT} --hordemodelname '' @ extract_filename p)"
  proof (clarify)
    fix key fields
    assume "(key, fields) \<in> set (build_models kcpps_files [])"
    then obtain p where p: "p \<in> set kcpps_files" "(key, fields) = config_item (extract_filename p)"
      using build_models_items [of "(key, fields)" kcpps_files "[]"] by auto
    from p(2) have key: "key = ''koboldcpp/'' @ extract_filename p"
      using fst_config_item [of "extract_filename p"] by (metis fst_conv)
    from p(2) have cmd: "map_of fields ''cmd'' =
              Some (''kcpp-extracted/koboldcpp-launcher --config configs/'' @ extract_filename p
                    @ ''.kcpps --port ${PORT} --hordemodelname '' @ extract_filename p)"
      using config_item_cmd [of "extract_filename p"] by (metis snd_conv)
    show "\<exists>p \<in> set kcpps_files.
          key = ''koboldcpp/'' @ extract_filename p
          \<and> map_of fields ''cmd'' =
              Some (''kcpp-extracted/koboldcpp-launcher --config configs/'' @ extract_filename p
                    @ ''.kcpps --port ${PORT} --hordemodelname '' @ extract_filename p)
          \<and> sublist ''${PORT}''
                (''kcpp-extracted/koboldcpp-launcher --config configs/'' @ extract_filename p
                 @ ''.kcpps --port ${PORT} --hordemodelname '' @ extract_filename p)"
      using p(1) key cmd cmd_keeps_placeholder [of "extract_filename p" "extract_filename p"]
      by blast
  qed
qed

theorem mapping_shape_witness:
  "length (build_models [Path [''configs'', ''a.kcpps''], Path [''configs'', ''b.kcpps'']] []) = 2"
proof -
  let ?fs = "[Path [''configs'', ''a.kcpps''], Path [''configs'', ''b.kcpps'']]"
  have "stem (Path [''configs'', ''a'' @ ''.kcpps'']) = ''a''"
    and "stem (Path [''configs'', ''b'' @ ''.kcpps'']) = ''b''"
    unfolding stem_kcpps by simp_all
  then have ids: "map extract_filename ?fs = [''a'', ''b'']"
    by (simp add: extract_filename_def)
  have d: "distinct (map extract_filename ?fs)" unfolding ids by simp
  from mapping_shape [of ?fs]
  have "distinct (map extract_filename ?fs) \<longrightarrow>
        length (build_models ?fs []) = length ?fs
        \<and> map fst (build_models ?fs []) = map (\<lambda>p. ''koboldcpp/'' @ extract_filename p) ?fs"
    by (rule conjunct2 [THEN conjunct1])
  with d have "length (build_models ?fs []) = length ?fs
        \<and> map fst (build_models ?fs []) = map (\<lambda>p. ''koboldcpp/'' @ extract_filename p) ?fs"
    by (rule rev_mp)
  then have "length (build_models ?fs []) = length ?fs" by (rule conjunct1)
  then show ?thesis by simp
qed

text \<open>
  C2 does not hold of every list. The files \<^verbatim>\<open>.kcpps\<close> and \<^verbatim>\<open>.kcpps.kcpps\<close> are both discovered and both have the identifier
  \<^verbatim>\<open>.kcpps\<close> (a leading dot does not start a suffix): two identifiers, one entry.
\<close>

theorem duplicate_identifiers_counterexample:
  "fst (find_kcpps_files
          (example_world [(''configs'', Dir [(''.kcpps'', File []), (''.kcpps.kcpps'', File [])])])
          ''configs'')
     = [Path [''configs'', ''.kcpps''], Path [''configs'', ''.kcpps.kcpps'']]
   \<and> map extract_filename [Path [''configs'', ''.kcpps''], Path [''configs'', ''.kcpps.kcpps'']]
     = [''.kcpps'', ''.kcpps'']
   \<and> length (build_models [Path [''configs'', ''.kcpps''], Path [''configs'', ''.kcpps.kcpps'']] [])
     = 1"
proof -
  have found: "fst (find_kcpps_files
          (example_world [(''configs'', Dir [(''.kcpps'', File []), (''.kcpps.kcpps'', File [])])])
          ''configs'')
     = [Path [''configs'', ''.kcpps''], Path [''configs'', ''.kcpps.kcpps'']]"
    by (simp add: find_kcpps_files_def path_exists_def path_glob_def
          example_world_def glob_match_def suffix_to_prefix)
  have "stem (Path [''configs'', [] @ ''.kcpps'']) = ''.kcpps''"
    and "stem (Path [''configs'', ''.kcpps'' @ ''.kcpps'']) = ''.kcpps''"
    unfolding stem_kcpps by simp_all
  then have ids: "map extract_filename [Path [''configs'', ''.kcpps''], Path [''configs'', ''.kcpps.kcpps'']]
     = [''.kcpps'', ''.kcpps'']"
    by (simp add: extract_filename_def)
  have "length (build_models [Path [''configs'', ''.kcpps''], Path [''configs'', ''.kcpps.kcpps'']] [])
        = card (set (map extract_filename
                      [Path [''configs'', ''.kcpps''], Path [''configs'', ''.kcpps.kcpps'']]))"
    by (simp only: build_models_length set_map)
  then have len: "length (build_models [Path [''configs'', ''.kcpps''], Path [''configs'', ''.kcpps.kcpps'']] [])
     = 1"
    unfolding ids by simp
  from found ids len show ?thesis by (intro conjI)
qed

section \<open>Regeneration\<close>

lemma build_models_cong:
  "map extract_filename fs1 = map extract_filename fs2 \<Longrightarrow>
   build_models fs1 acc = build_models fs2 acc"
proof (induction fs1 arbitrary: fs2 acc)
  case Nil
  then show ?case by simp
next
  case (Cons p fs1)
  then obtain q fs2' where fs2: "fs2 = q # fs2'" by (cases fs2) auto
  with Cons.prems have same: "extract_filename p = extract_filename q"
    and rest: "map extract_filename fs1 = map extract_filename fs2'"
    by auto
  show ?case
    unfolding fs2 build_models_step same by (rule Cons.IH [OF rest])
qed

lemma open_dump_success:
  assumes "fst (open_dump w output_file config) = Inr ()"
  shows "write_fault w = NoFault" and "\<forall>es. map_of (cwd w) output_file \<noteq> Some (Dir es)"
  using assms
  by (auto simp: open_dump_def split: option.splits node.splits write_fault.splits)

lemma generate_config_yaml_success:
  assumes "fst (generate_config_yaml w kcpps_files output_file) = Inr True"
  shows "kcpps_files \<noteq> []" and "write_fault w = NoFault"
    and "\<forall>es. map_of (cwd w) output_file \<noteq> Some (Dir es)"
    and "cwd (snd (generate_config_yaml w kcpps_files output_file)) =
           AList.update output_file
             (File (yaml_dump w [(''models'', build_models kcpps_files [])])) (cwd w)"
proof -
  show ne: "kcpps_files \<noteq> []"
    using assms by (auto simp: generate_config_yaml_empty)
  from assms generate_config_yaml_result [OF ne, of w output_file]
  have ok: "fst (open_dump w output_file [(''models'', build_models kcpps_files [])]) = Inr ()"
    by simp
  from open_dump_success [OF ok]
  show wf: "write_fault w = NoFault"
    and nd: "\<forall>es. map_of (cwd w) output_file \<noteq> Some (Dir es)"
    by blast+
  show "cwd (snd (generate_config_yaml w kcpps_files output_file)) =
           AList.update output_file
             (File (yaml_dump w [(''models'', build_models kcpps_files [])])) (cwd w)"
    unfolding generate_config_yaml_ok [OF ne wf nd] by (simp add: print_def log_event_def)
qed

lemma generate_config_yaml_written:
  assumes "fst (generate_config_yaml w kcpps_files output_file) = Inr True"
  shows "map_of (cwd (snd (generate_config_yaml w kcpps_files output_file))) output_file =
         Some (File (yaml_dump w [(''models'', build_models kcpps_files [])]))"
  unfolding generate_config_yaml_success(4) [OF assms] by (simp add: update_conv')

text \<open>
  C5. Two successful syntheses with the same serializer and the same sequence of
  identifiers leave the same content in the output file, whatever else differs between the
  two worlds (also what the file held before). Run a second time right after a successful
  run, synthesis succeeds again and leaves the working directory as the first run left it.
  And discovery returns the same paths whenever the configs entry of the working directory
  is the same.
\<close>

theorem synthesis_deterministic:
  "(fst (generate_config_yaml w1 fs1 output_file) = Inr True
    \<and> fst (generate_config_yaml w2 fs2 output_file) = Inr True
    \<and> yaml_dump w1 = yaml_dump w2
    \<and> map extract_filename fs1 = map extract_filename fs2 \<longrightarrow>
      map_of (cwd (snd (generate_config_yaml w1 fs1 output_file))) output_file
      = map_of (cwd (snd (generate_config_yaml w2 fs2 output_file))) output_file)
   \<and> (fst (generate_config_yaml w1 fs1 output_file) = Inr True \<longrightarrow>
        fst (generate_config_yaml (snd (generate_config_yaml w1 fs1 output_file)) fs1 output_file)
          = Inr True
        \<and> cwd (snd (generate_config_yaml (snd (generate_config_yaml w1 fs1 output_file))
                      fs1 output_file))
          = cwd (snd (generate_config_yaml w1 fs1 output_file)))
   \<and> (map_of (cwd w1) configs_dir = map_of (cwd w2) configs_dir \<longrightarrow>
        fst (find_kcpps_files w1 configs_dir) = fst (find_kcpps_files w2 configs_dir))"
proof (intro conjI impI)
  assume h: "fst (generate_config_yaml w1 fs1 output_file) = Inr True
    \<and> fst (generate_config_yaml w2 fs2 output_file) = Inr True
    \<and> yaml_dump w1 = yaml_dump w2
    \<and> map extract_filename fs1 = map extract_filename fs2"
  then have s1: "fst (generate_config_yaml w1 fs1 output_file) = Inr True"
    and s2: "fst (generate_config_yaml w2 fs2 output_file) = Inr True"
    and dump: "yaml_dump w1 = yaml_dump w2"
    and ids: "map extract_filename fs1 = map extract_filename fs2"
    by blast+
  have "build_models fs1 [] = build_models fs2 []" by (rule build_models_cong [OF ids])
  then show "map_of (cwd (snd (generate_config_yaml w1 fs1 output_file))) output_file
      = map_of (cwd (snd (generate_config_yaml w2 fs2 output_file))) output_file"
    unfolding generate_config_yaml_written [OF s1] generate_config_yaml_written [OF s2]
    by (simp add: dump)
next
  assume s1: "fst (generate_config_yaml w1 fs1 output_file) = Inr True"
  let ?w' = "snd (generate_config_yaml w1 fs1 output_file)"
  note first = generate_config_yaml_success [OF s1]
  have w': "?w' = print (log_event
                   (w1\<lparr>cwd := AList.update output_file
                              (File (yaml_dump w1 [(''models'', build_models fs1 [])])) (cwd w1)\<rparr>)
                   (OpenWrite output_file))
                (''Successfully generated '' @ output_file)"
    unfolding generate_config_yaml_ok [OF first(1) first(2) first(3)] by simp
  have wf: "write_fault ?w' = NoFault" unfolding w' using first(2) by (simp add: print_def log_event_def)
  have nd: "\<forall>es. map_of (cwd ?w') output_file \<noteq> Some (Dir es)"
    unfolding first(4) by (simp add: update_conv')
  have dump: "yaml_dump ?w' = yaml_dump w1" unfolding w' by (simp add: print_def log_event_def)
  note again = generate_config_yaml_ok [OF first(1) wf nd]
  show "fst (generate_config_yaml ?w' fs1 output_file) = Inr True"
    unfolding again by simp
  have "cwd (snd (generate_config_yaml ?w' fs1 output_file)) =
        AList.update output_file (File (yaml_dump w1 [(''models'', build_models fs1 [])])) (cwd ?w')"
    unfolding again dump by (simp add: print_def log_event_def)
  then show "cwd (snd (generate_config_yaml ?w' fs1 output_file)) = cwd ?w'"
    unfolding first(4) by simp
next
  assume "map_of (cwd w1) configs_dir = map_of (cwd w2) configs_dir"
  then show "fst (find_kcpps_files w1 configs_dir) = fst (find_kcpps_files w2 configs_dir)"
    by (simp add: find_kcpps_files_def path_exists_def path_glob_def Let_def)
qed

theorem synthesis_deterministic_witness:
  "map_of (cwd (snd (generate_config_yaml (example_world [])
                       [Path [''configs'', ''a.kcpps'']] ''config.yaml''))) ''config.yaml''
   = map_of (cwd (snd (generate_config_yaml (example_world [(''config.yaml'', File ''old'')])
                       [Path [''other'', ''a.kcpps'']] ''config.yaml''))) ''config.yaml''"
proof -
  let ?w1 = "example_world []"
  let ?w2 = "example_world [(''config.yaml'', File ''old'')]"
  let ?f1 = "[Path [''configs'', ''a.kcpps'']]"
  let ?f2 = "[Path [''other'', ''a.kcpps'']]"
  have s1: "fst (generate_config_yaml ?w1 ?f1 ''config.yaml'') = Inr True"
    by (simp add: generate_config_yaml_ok example_world_def)
  have s2: "fst (generate_config_yaml ?w2 ?f2 ''config.yaml'') = Inr True"
    by (simp add: generate_config_yaml_ok example_world_def)
  have dump: "yaml_dump ?w1 = yaml_dump ?w2" by (simp add: example_world_def)
  have "stem (Path [''configs'', ''a'' @ ''.kcpps'']) = stem (Path [''other'', ''a'' @ ''.kcpps''])"
    unfolding stem_kcpps ..
  then have ids: "map extract_filename ?f1 = map extract_filename ?f2"
    by (simp add: extract_filename_def)
  from s1 s2 dump ids have h:
    "fst (generate_config_yaml ?w1 ?f1 ''config.yaml'') = Inr True
     \<and> fst (generate_config_yaml ?w2 ?f2 ''config.yaml'') = Inr True
     \<and> yaml_dump ?w1 = yaml_dump ?w2
     \<and> map extract_filename ?f1 = map extract_filename ?f2"
    by (intro conjI)
  show ?thesis
    by (rule synthesis_deterministic [of ?w1 ?f1 "''config.yaml''" ?w2 ?f2,
               THEN conjunct1, THEN mp, OF h])
qed

section \<open>The example with two files\<close>

text \<open>
  C3, for either order of enumeration. With exactly the files \<^verbatim>\<open>a.kcpps\<close> and \<^verbatim>\<open>b.kcpps\<close> in the configs folder,
  enumerated in either order, the mapping has the two keys \<^verbatim>\<open>koboldcpp/a\<close> and
  \<^verbatim>\<open>koboldcpp/b\<close> in the order of enumeration; each entry consists of \<^verbatim>\<open>cmd\<close>, which names
  the file under \<^verbatim>\<open>configs/\<close>, and \<^verbatim>\<open>checkEndpoint\<close> with the value \<^verbatim>\<open>/ping\<close>, and of nothing
  else; and a successful synthesis writes the serialization of exactly this mapping.
\<close>

theorem example_mapping_in_discovery_order:
  assumes order: "(x, y) = (''a'', ''b'') \<or> (x, y) = (''b'', ''a'')"
    and configs: "map_of (cwd w) ''configs'' =
                    Some (Dir [(x @ ''.kcpps'', File cx), (y @ ''.kcpps'', File cy)])"
  shows "fst (find_kcpps_files w ''configs'') =
           [Path [''configs'', x @ ''.kcpps''], Path [''configs'', y @ ''.kcpps'']]
    \<and> build_models (fst (find_kcpps_files w ''configs'')) [] =
         [(''koboldcpp/'' @ x,
           [(''cmd'', ''kcpp-extracted/koboldcpp-launcher --config configs/'' @ x
                       @ ''.kcpps --port ${PORT} --hordemodelname '' @ x),
            (''checkEndpoint'', ''/ping'')]),
          (''koboldcpp/'' @ y,
           [(''cmd'', ''kcpp-extracted/koboldcpp-launcher --config configs/'' @ y
                       @ ''.kcpps --port ${PORT} --hordemodelname '' @ y),
            (''checkEndpoint'', ''/ping'')])]
    \<and> (fst (generate_config_yaml w (fst (find_kcpps_files w ''configs'')) ''config.yaml'')
          = Inr True \<longrightarrow>
        map_of (cwd (snd (generate_config_yaml w (fst (find_kcpps_files w ''configs''))
                            ''config.yaml''))) ''config.yaml'' =
          Some (File (yaml_dump w
            [(''models'',
              [(''koboldcpp/'' @ x,
                [(''cmd'', ''kcpp-extracted/koboldcpp-launcher --config configs/'' @ x
                            @ ''.kcpps --port ${PORT} --hordemodelname '' @ x),
                 (''checkEndpoint'', ''/ping'')]),
               (''koboldcpp/'' @ y,
                [(''cmd'', ''kcpp-extracted/koboldcpp-launcher --config configs/'' @ y
                            @ ''.kcpps --port ${PORT} --hordemodelname '' @ y),
                 (''checkEndpoint'', ''/ping'')])])])))"
proof -
  let ?fs = "[Path [''configs'', x @ ''.kcpps''], Path [''configs'', y @ ''.kcpps'']]"
  from order have xy: "x \<noteq> y" and x: "x \<noteq> []" and y: "y \<noteq> []" by auto
  have gx: "glob_match (x @ ''.kcpps'')" and gy: "glob_match (y @ ''.kcpps'')"
    unfolding glob_match_def suffix_def by blast+
  have found: "fst (find_kcpps_files w ''configs'') = ?fs"
    unfolding find_kcpps_files_paths [OF configs] using gx gy by simp
  have ids: "map extract_filename ?fs = [x, y]"
    using x y by (simp add: extract_filename_def stem_kcpps)
  have "distinct (map extract_filename ?fs)" unfolding ids using xy by simp
  from build_models_distinct_ids [OF this]
  have "build_models ?fs [] = [config_item (extract_filename (Path [''configs'', x @ ''.kcpps''])),
                               config_item (extract_filename (Path [''configs'', y @ ''.kcpps'']))]"
    by simp
  moreover have "extract_filename (Path [''configs'', x @ ''.kcpps'']) = x"
    and "extract_filename (Path [''configs'', y @ ''.kcpps'']) = y"
    using ids by simp_all
  ultimately have "build_models ?fs [] = [config_item x, config_item y]" by simp
  then have models: "build_models ?fs [] =
         [(''koboldcpp/'' @ x,
           [(''cmd'', ''kcpp-extracted/koboldcpp-launcher --config configs/'' @ x
                       @ ''.kcpps --port ${PORT} --hordemodelname '' @ x),
            (''checkEndpoint'', ''/ping'')]),
          (''koboldcpp/'' @ y,
           [(''cmd'', ''kcpp-extracted/koboldcpp-launcher --config configs/'' @ y
                       @ ''.kcpps --port ${PORT} --hordemodelname '' @ y),
            (''checkEndpoint'', ''/ping'')])]"
    by (simp add: config_item_def generate_config_entry_def)
  have written: "fst (generate_config_yaml w ?fs ''config.yaml'') = Inr True \<longrightarrow>
        map_of (cwd (snd (generate_config_yaml w ?fs ''config.yaml''))) ''config.yaml'' =
          Some (File (yaml_dump w [(''models'', build_models ?fs [])]))"
    using generate_config_yaml_written [of w ?fs "''config.yaml''"] by blast
  show ?thesis
    unfolding found using models written by (simp only: simp_thms)
qed

theorem example_mapping_in_discovery_order_witness:
  "map fst (build_models
              (fst (find_kcpps_files
                      (example_world [(''configs'', Dir [(''a.kcpps'', File []), (''b.kcpps'', File [])])])
                      ''configs'')) [])
   = [''koboldcpp/a'', ''koboldcpp/b'']"
proof -
  let ?w = "example_world [(''configs'', Dir [(''a.kcpps'', File []), (''b.kcpps'', File [])])]"
  have order: "(''a'', ''b'') = (''a'', ''b'') \<or> (''a'', ''b'') = (''b'', ''a'')" by simp
  have configs: "map_of (cwd ?w) ''configs'' =
                   Some (Dir [(''a'' @ ''.kcpps'', File []), (''b'' @ ''.kcpps'', File [])])"
    by (simp add: example_world_def)
  note r = example_mapping_in_discovery_order [OF order configs]
  from r have "build_models (fst (find_kcpps_files ?w ''configs'')) [] =
         [(''koboldcpp/'' @ ''a'',
           [(''cmd'', ''kcpp-extracted/koboldcpp-launcher --config configs/'' @ ''a''
                       @ ''.kcpps --port ${PORT} --hordemodelname '' @ ''a''),
            (''checkEndpoint'', ''/ping'')]),
          (''koboldcpp/'' @ ''b'',
           [(''cmd'', ''kcpp-extracted/koboldcpp-launcher --config configs/'' @ ''b''
                       @ ''.kcpps --port ${PORT} --hordemodelname '' @ ''b''),
            (''checkEndpoint'', ''/ping'')])]"
    by (rule conjunct2 [THEN conjunct1])
  then have "map fst (build_models (fst (find_kcpps_files ?w ''configs'')) []) =
             [''koboldcpp/'' @ ''a'', ''koboldcpp/'' @ ''b'']"
    by (simp only: list.map fst_conv)
  then show ?thesis by simp
qed

text \<open>
  C3 does not hold of every enumeration. When the directory enumerates \<^verbatim>\<open>b.kcpps\<close> first, the key \<^verbatim>\<open>koboldcpp/b\<close> comes first.
\<close>

theorem enumeration_order_counterexample:
  "map fst (build_models
              (fst (find_kcpps_files
                      (example_world [(''configs'', Dir [(''b.kcpps'', File []), (''a.kcpps'', File [])])])
                      ''configs'')) [])
   = [''koboldcpp/b'', ''koboldcpp/a'']"
proof -
  let ?w = "example_world [(''configs'', Dir [(''b.kcpps'', File []), (''a.kcpps'', File [])])]"
  let ?fs = "[Path [''configs'', ''b.kcpps''], Path [''configs'', ''a.kcpps'']]"
  have found: "fst (find_kcpps_files ?w ''configs'') = ?fs"
    by (simp add: find_kcpps_files_def path_exists_def path_glob_def
          example_world_def glob_match_def suffix_to_prefix)
  have "stem (Path [''configs'', ''b'' @ ''.kcpps'']) = ''b''"
    and "stem (Path [''configs'', ''a'' @ ''.kcpps'']) = ''a''"
    unfolding stem_kcpps by simp_all
  then have ids: "map extract_filename ?fs = [''b'', ''a'']"
    by (simp add: extract_filename_def)
  have "distinct (map extract_filename ?fs)" unfolding ids by simp
  from build_models_distinct_ids [OF this]
  have "map fst (build_models ?fs []) = map (\<lambda>f. fst (config_item f)) (map extract_filename ?fs)"
    by (simp add: comp_def)
  then have "map fst (build_models ?fs []) = [''koboldcpp/'' @ ''b'', ''koboldcpp/'' @ ''a'']"
    unfolding ids by (simp only: list.map fst_config_item)
  then show ?thesis unfolding found by simp
qed

section \<open>Write failures and the exit status\<close>

lemma generate_config_yaml_fails:
  assumes ne: "kcpps_files \<noteq> []"
    and nodir: "\<forall>es. map_of (cwd w) output_file \<noteq> Some (Dir es)"
    and fault: "write_fault w = OpenFails msg \<or> write_fault w = DumpFails n msg"
  shows "fst (generate_config_yaml w kcpps_files output_file) = Inr False"
    and "stdout (snd (generate_config_yaml w kcpps_files output_file)) =
           stdout w @ [''Error writing '' @ output_file @ '': '' @ msg]"
proof -
  have "\<exists>w1. open_dump w output_file [(''models'', build_models kcpps_files [])]
               = (Inl (OSError msg), w1) \<and> stdout w1 = stdout w"
  proof (cases "map_of (cwd w) output_file")
    case None
    with fault show ?thesis by (auto simp: open_dump_def log_event_def)
  next
    case (Some node)
    with nodir obtain content where "node = File content" by (cases node) auto
    with Some fault show ?thesis by (auto simp: open_dump_def log_event_def)
  qed
  then obtain w1 where
    od: "open_dump w output_file [(''models'', build_models kcpps_files [])] = (Inl (OSError msg), w1)"
    and out: "stdout w1 = stdout w"
    by blast
  have g: "generate_config_yaml w kcpps_files output_file =
           (Inr False, print w1 (''Error writing '' @ output_file @ '': '' @ msg))"
    using ne by (simp add: generate_config_yaml_def Let_def od)
  show "fst (generate_config_yaml w kcpps_files output_file) = Inr False"
    unfolding g by simp
  show "stdout (snd (generate_config_yaml w kcpps_files output_file)) =
           stdout w @ [''Error writing '' @ output_file @ '': '' @ msg]"
    unfolding g by (simp add: print_def out)
qed

lemma main_write_failure:
  assumes configs: "map_of (cwd w) ''configs'' = Some (Dir entries)"
    and some: "filter glob_match (map fst entries) \<noteq> []"
    and unpack: "os_path_exists w ''kcpp-extracted''
                 \<or> (\<exists>rc created. unpack_outcome w = RunExits rc created)"
    and nodir: "\<forall>es. map_of (cwd w) ''config.yaml'' \<noteq> Some (Dir es)"
    and fault: "write_fault w = OpenFails msg \<or> write_fault w = DumpFails n msg"
  shows "fst (main w) = Some (Raised (SystemExit (ArgInt 1)))"
    and "process_exit_status w = Some 1"
    and "stdout (snd (main w)) =
           stdout w @ [''Kobold Swap'', ''Error writing config.yaml: '' @ msg,
                       ''Config generation failed.'']"
proof -
  let ?w0 = "print w ''Kobold Swap''"
  let ?files = "map (\<lambda>name. Path [''configs'', name]) (filter glob_match (map fst entries))"
  have nonempty: "?files \<noteq> []" using some by simp
  have ex: "os_path_exists w ''configs''" using configs by (simp add: os_path_exists_def)
  have "os_path_exists ?w0 ''kcpp-extracted''
        \<or> (\<exists>rc created. unpack_outcome ?w0 = RunExits rc created)"
    using unpack by (simp add: os_path_exists_def print_def)
  from unpack_step_ok [OF this] obtain rc c pre where
    step: "unpack_step ?w0 = (Inr rc, ?w0\<lparr>cwd := c, events := events ?w0 @ pre\<rparr>)"
    and same: "\<forall>k. k \<noteq> ''kcpp-extracted'' \<longrightarrow> map_of c k = map_of (cwd ?w0) k"
    by blast
  let ?w1 = "?w0\<lparr>cwd := c, events := events ?w0 @ pre\<rparr>"
  have same': "\<forall>k. k \<noteq> ''kcpp-extracted'' \<longrightarrow> map_of c k = map_of (cwd w) k"
    using same by (simp add: print_def)
  have c1: "map_of (cwd ?w1) ''configs'' = Some (Dir entries)"
    using same' configs by simp
  have found: "find_kcpps_files ?w1 ''configs'' = (?files, ?w1)"
    using find_kcpps_files_some [OF c1 some] .
  have wf: "write_fault ?w1 = OpenFails msg \<or> write_fault ?w1 = DumpFails n msg"
    using fault by (simp add: print_def)
  have nd: "\<forall>es. map_of (cwd ?w1) ''config.yaml'' \<noteq> Some (Dir es)"
    using same' nodir by simp
  obtain r w3 where g: "generate_config_yaml ?w1 ?files ''config.yaml'' = (r, w3)"
    by (cases "generate_config_yaml ?w1 ?files ''config.yaml''")
  from generate_config_yaml_fails [OF nonempty nd wf] g
  have r: "r = Inr False"
    and out: "stdout w3 = stdout ?w1 @ [''Error writing '' @ ''config.yaml'' @ '': '' @ msg]"
    by simp_all
  have m: "main w = (Some (Raised (SystemExit (ArgInt 1))), print w3 ''Config generation failed.'')"
    unfolding main_with_configs [OF ex] step
    using nonempty by (simp add: found g r)
  show "fst (main w) = Some (Raised (SystemExit (ArgInt 1)))" unfolding m by simp
  show "process_exit_status w = Some 1" unfolding process_exit_status_def m by simp
  show "stdout (snd (main w)) =
           stdout w @ [''Kobold Swap'', ''Error writing config.yaml: '' @ msg,
                       ''Config generation failed.'']"
    unfolding m by (simp add: print_def out)
qed

text \<open>
  C7. A failing write is reported with its cause and makes the exit status 1 (the two
  lemmas above, and the first line below). But the exit status is 1 as well in the run
  that finds no configs folder, where no write fails because none is attempted: the write
  failure is not the only condition that changes the exit status.
\<close>

theorem exit_status_changes_without_write_failure:
  "process_exit_status
     ((example_world [(''configs'', Dir [(''a.kcpps'', File [])])])
        \<lparr>write_fault := OpenFails ''Permission denied''\<rparr>) = Some 1
   \<and> process_exit_status (example_world []) = Some 1
   \<and> write_fault (example_world []) = NoFault
   \<and> events (snd (main (example_world []))) = [Mkdir ''configs'']"
proof -
  let ?w = "(example_world [(''configs'', Dir [(''a.kcpps'', File [])])])
              \<lparr>write_fault := OpenFails ''Permission denied''\<rparr>"
  have configs: "map_of (cwd ?w) ''configs'' = Some (Dir [(''a.kcpps'', File [])])"
    by (simp add: example_world_def)
  have some: "filter glob_match (map fst [(''a.kcpps'', File [])]) \<noteq> []"
    by (simp add: glob_match_def suffix_to_prefix)
  have unpack: "os_path_exists ?w ''kcpp-extracted''
                \<or> (\<exists>rc created. unpack_outcome ?w = RunExits rc created)"
    by (simp add: example_world_def)
  have nodir: "\<forall>es. map_of (cwd ?w) ''config.yaml'' \<noteq> Some (Dir es)"
    by (simp add: example_world_def)
  have fault: "write_fault ?w = OpenFails ''Permission denied''
               \<or> write_fault ?w = DumpFails 0 ''Permission denied''"
    by (simp add: example_world_def)
  have a: "process_exit_status ?w = Some 1"
    by (rule main_write_failure(2) [OF configs some unpack nodir fault])
  have absent: "\<not> os_path_exists (example_world []) ''configs''"
    by (simp add: os_path_exists_def example_world_def)
  have mk: "mkdir_fault (example_world []) = None" by (simp add: example_world_def)
  have b: "process_exit_status (example_world []) = Some 1"
    unfolding process_exit_status_def main_missing_configs(1) [OF absent mk] by simp
  have c: "write_fault (example_world []) = NoFault" by (simp add: example_world_def)
  have d: "events (snd (main (example_world []))) = [Mkdir ''configs'']"
    unfolding main_missing_configs(3) [OF absent mk] by (simp add: example_world_def)
  from a b c d show ?thesis by (intro conjI)
qed

end
